theory Spec2Isabelle
  imports Complex_Main "HOL-Library.Word"
begin

section \<open>Errors raised by the helpers\<close>

text \<open>
  Every \<^verbatim>\<open>raise\<close> of the source, and every exception of the Python runtime, of numpy,
  torch or PIL that a modelled path can reach, is a value of this type. A function that
  can raise returns \<open>exn + 'a\<close>, with \<open>Inl\<close> for the exception.
\<close>

datatype exn =
    NotImplementedError string
  | ValueError string
  | RuntimeError string
  | IndexError
  | TypeError
  | AttributeError
  | KeyError string
  | ZeroDivisionError

definition is_NotImplementedError :: "exn + 'a \<Rightarrow> bool" where
  "is_NotImplementedError r = (case r of Inl (NotImplementedError m) \<Rightarrow> True | _ \<Rightarrow> False)"

definition is_ValueError :: "exn + 'a \<Rightarrow> bool" where
  "is_ValueError r = (case r of Inl (ValueError m) \<Rightarrow> True | _ \<Rightarrow> False)"

definition raises :: "exn + 'a \<Rightarrow> bool" where
  "raises r = (case r of Inl e \<Rightarrow> True | Inr v \<Rightarrow> False)"

section \<open>Rank-4 tensors\<close>

text \<open>
  The latent tensors of \<^verbatim>\<open>style_transfer/utils.py\<close> have shape (batch, channel, height,
  width) (the source's comment: \<^verbatim>\<open># b, 4, h, w\<close>). A tensor is its four extents and its
  elements in row-major (contiguous) order. Elements are real numbers: the model idealises
  float32 arithmetic, so it has no rounding, no infinities and no NaN.
\<close>

record tensor4 =
  nb :: nat
  nc :: nat
  nh :: nat
  nw :: nat
  elems :: "real list"

definition same_shape :: "tensor4 \<Rightarrow> tensor4 \<Rightarrow> bool" where
  "same_shape x y = (nb x = nb y \<and> nc x = nc y \<and> nh x = nh y \<and> nw x = nw y)"

text \<open>Row-major read of element \<open>[b, c, h, w]\<close>.\<close>

definition get4 :: "tensor4 \<Rightarrow> nat \<Rightarrow> nat \<Rightarrow> nat \<Rightarrow> nat \<Rightarrow> real" where
  "get4 t b c h w = elems t ! (((b * nc t + c) * nh t + h) * nw t + w)"

text \<open>
  The read that broadcasting does: along a dimension of extent 1 the single entry is
  repeated, so the index there is 0.
\<close>

definition bget4 :: "tensor4 \<Rightarrow> nat \<Rightarrow> nat \<Rightarrow> nat \<Rightarrow> nat \<Rightarrow> real" where
  "bget4 t b c h w =
     get4 t (if nb t = 1 then 0 else b) (if nc t = 1 then 0 else c)
          (if nh t = 1 then 0 else h) (if nw t = 1 then 0 else w)"

text \<open>The tensor of the given shape whose element \<open>[b, c, h, w]\<close> is \<open>f b c h w\<close>.\<close>

definition tab4 :: "nat \<Rightarrow> nat \<Rightarrow> nat \<Rightarrow> nat \<Rightarrow> (nat \<Rightarrow> nat \<Rightarrow> nat \<Rightarrow> nat \<Rightarrow> real) \<Rightarrow> tensor4" where
  "tab4 B C H W f =
     \<lparr> nb = B, nc = C, nh = H, nw = W,
       elems = concat (map (\<lambda>b. concat (map (\<lambda>c. concat (map (\<lambda>h. map (\<lambda>w. f b c h w)
                 [0..<W]) [0..<H])) [0..<C])) [0..<B]) \<rparr>"

text \<open>
  torch's rule for one dimension of two operands: equal extents, or one of them 1.
\<close>

definition bdim :: "nat \<Rightarrow> nat \<Rightarrow> nat option" where
  "bdim m n = (if m = n then Some m else if m = 1 then Some n else if n = 1 then Some m else None)"

definition shape_error :: exn where
  "shape_error = RuntimeError ''The size of tensor a must match the size of tensor b''"

text \<open>An elementwise binary operation with broadcasting (\<^verbatim>\<open>x - y\<close>, \<^verbatim>\<open>x * y\<close>, \<^verbatim>\<open>x.add(y)\<close>).\<close>

definition binop :: "(real \<Rightarrow> real \<Rightarrow> real) \<Rightarrow> tensor4 \<Rightarrow> tensor4 \<Rightarrow> exn + tensor4" where
  "binop f x y =
     (case (bdim (nb x) (nb y), bdim (nc x) (nc y), bdim (nh x) (nh y), bdim (nw x) (nw y)) of
        (Some B, Some C, Some H, Some W) \<Rightarrow>
          Inr (tab4 B C H W (\<lambda>b c h w. f (bget4 x b c h w) (bget4 y b c h w)))
      | _ \<Rightarrow> Inl shape_error)"

text \<open>
  The in-place form (\<^verbatim>\<open>x.mul_(y)\<close>): the result is written into \<open>x\<close>, so the broadcast
  shape has to be the shape of \<open>x\<close>.
\<close>

definition binop_inplace :: "(real \<Rightarrow> real \<Rightarrow> real) \<Rightarrow> tensor4 \<Rightarrow> tensor4 \<Rightarrow> exn + tensor4" where
  "binop_inplace f x y =
     (case binop f x y of
        Inl e \<Rightarrow> Inl e
      | Inr r \<Rightarrow> if same_shape r x then Inr r else Inl shape_error)"

definition tmap :: "(real \<Rightarrow> real) \<Rightarrow> tensor4 \<Rightarrow> tensor4" where
  "tmap f t = t\<lparr>elems := map f (elems t)\<rparr>"

text \<open>\<^verbatim>\<open>t[:, :k]\<close> and \<^verbatim>\<open>t[:, k:]\<close>: a slice past the end is cut at the end, without error.\<close>

definition channels_upto :: "nat \<Rightarrow> tensor4 \<Rightarrow> tensor4" where
  "channels_upto k t = tab4 (nb t) (min k (nc t)) (nh t) (nw t) (get4 t)"

definition channels_from :: "nat \<Rightarrow> tensor4 \<Rightarrow> tensor4" where
  "channels_from k t = tab4 (nb t) (nc t - k) (nh t) (nw t) (\<lambda>b c. get4 t b (c + k))"

text \<open>\<^verbatim>\<open>torch.cat([x, y], dim=1)\<close>: the other three extents must agree.\<close>

definition cat_channels :: "tensor4 \<Rightarrow> tensor4 \<Rightarrow> exn + tensor4" where
  "cat_channels x y =
     (if nb x = nb y \<and> nh x = nh y \<and> nw x = nw y
      then Inr (tab4 (nb x) (nc x + nc y) (nh x) (nw x)
                  (\<lambda>b c. if c < nc x then get4 x b c else get4 y b (c - nc x)))
      else Inl (RuntimeError ''Sizes of tensors must match except in dimension 1''))"

section \<open>The DREAM rectification\<close>

text \<open>
  The scheduler, as far as \<^verbatim>\<open>compute_dream_and_update_latents_for_inpaint\<close> reads it:
  the table \<^verbatim>\<open>alphas_cumprod\<close> and \<^verbatim>\<open>config.prediction_type\<close>.
\<close>

record scheduler =
  alphas_cumprod :: "real list"
  prediction_type :: string

text \<open>
  Indexing a 1-D tensor by one entry of an index tensor: a negative index counts from the
  end, an index outside the table raises.
\<close>

definition index1 :: "real list \<Rightarrow> int \<Rightarrow> exn + real" where
  "index1 xs i =
     (if 0 \<le> i \<and> i < int (length xs) then Inr (xs ! nat i)
      else if i < 0 \<and> - int (length xs) \<le> i then Inr (xs ! nat (int (length xs) + i))
      else Inl IndexError)"

fun index_all :: "real list \<Rightarrow> int list \<Rightarrow> exn + real list" where
  "index_all xs [] = Inr []"
| "index_all xs (i # is) =
     (case index1 xs i of
        Inl e \<Rightarrow> Inl e
      | Inr v \<Rightarrow> (case index_all xs is of Inl e \<Rightarrow> Inl e | Inr vs \<Rightarrow> Inr (v # vs)))"

text \<open>\<^verbatim>\<open>alphas_cumprod[timesteps, None, None, None]\<close>: shape (len(timesteps), 1, 1, 1).\<close>

definition gather_alphas :: "real list \<Rightarrow> int list \<Rightarrow> exn + tensor4" where
  "gather_alphas xs ts =
     (case index_all xs ts of
        Inl e \<Rightarrow> Inl e
      | Inr vs \<Rightarrow> Inr \<lparr> nb = length ts, nc = 1, nh = 1, nw = 1, elems = vs \<rparr>)"

text \<open>
  \<^verbatim>\<open>x ** p\<close> with a float exponent, on a base that is not negative: torch gives 1 for the
  exponent 0 whatever the base, where HOL's \<open>powr\<close> gives \<open>0 powr 0 = 0\<close>.
\<close>

definition fpow :: "real \<Rightarrow> real \<Rightarrow> real" where
  "fpow x p = (if p = 0 then 1 else x powr p)"

text \<open>
  \<^verbatim>\<open>unet(noisy_latents, timesteps, encoder_hidden_states).sample\<close> is the network's
  forward pass: it is a parameter of the model, a function of its three arguments.
\<close>

definition compute_dream_and_update_latents_for_inpaint ::
  "(tensor4 \<Rightarrow> int list \<Rightarrow> 'h \<Rightarrow> tensor4) \<Rightarrow> scheduler \<Rightarrow> int list \<Rightarrow> tensor4 \<Rightarrow> tensor4 \<Rightarrow>
     tensor4 \<Rightarrow> 'h \<Rightarrow> real \<Rightarrow> exn + (tensor4 \<times> tensor4)" where
  "compute_dream_and_update_latents_for_inpaint unet noise_scheduler timesteps noise
       noisy_latents target encoder_hidden_states dream_detail_preservation =
     (case gather_alphas (alphas_cumprod noise_scheduler) timesteps of
        Inl e \<Rightarrow> Inl e
      | Inr alphas \<Rightarrow>
          let sqrt_one_minus_alphas_cumprod = tmap (\<lambda>a. sqrt (1 - a)) alphas;
              dream_lambda = tmap (\<lambda>s. fpow s dream_detail_preservation)
                               sqrt_one_minus_alphas_cumprod;
              pred = unet noisy_latents timesteps encoder_hidden_states;
              noisy_latents_no_condition = channels_upto 4 noisy_latents
          in
          if prediction_type noise_scheduler = ''epsilon'' then
            (case binop (-) noise pred of
               Inl e \<Rightarrow> Inl e
             | Inr d0 \<Rightarrow>
            (case binop_inplace (*) d0 dream_lambda of
               Inl e \<Rightarrow> Inl e
             | Inr delta_noise \<Rightarrow>
            (case binop (*) sqrt_one_minus_alphas_cumprod delta_noise of
               Inl e \<Rightarrow> Inl e
             | Inr scaled \<Rightarrow>
            (case binop (+) noisy_latents_no_condition scaled of
               Inl e \<Rightarrow> Inl e
             | Inr nl \<Rightarrow>
            (case binop (+) target delta_noise of
               Inl e \<Rightarrow> Inl e
             | Inr tg \<Rightarrow>
            (case cat_channels nl (channels_from 4 noisy_latents) of
               Inl e \<Rightarrow> Inl e
             | Inr out \<Rightarrow> Inr (out, tg)))))))
          else if prediction_type noise_scheduler = ''v_prediction'' then
            Inl (NotImplementedError ''DREAM has not been implemented for v-prediction'')
          else
            Inl (ValueError (''Unknown prediction type '' @ prediction_type noise_scheduler)))"

text \<open>A network whose prediction is the same tensor whatever it is given.\<close>

definition const_unet :: "tensor4 \<Rightarrow> tensor4 \<Rightarrow> int list \<Rightarrow> 'h \<Rightarrow> tensor4" where
  "const_unet p x ts ehs = p"

section \<open>Arrays of any rank\<close>

text \<open>
  A numpy array or torch tensor of arbitrary rank, by value: its shape and its elements in
  row-major order. \<open>'a\<close> is \<open>8 word\<close> for a uint8 array and \<open>real\<close> for a
  floating-point one (idealised, as above).
\<close>

record 'a ndarr =
  shape :: "nat list"
  flat :: "'a list"

definition wf_ndarr :: "'a ndarr \<Rightarrow> bool" where
  "wf_ndarr a = (length (flat a) = prod_list (shape a))"

text \<open>\<^verbatim>\<open>a[None, :]\<close> and \<^verbatim>\<open>t.unsqueeze(0)\<close>: a new leading axis of extent 1.\<close>

definition unsqueeze0 :: "'a ndarr \<Rightarrow> 'a ndarr" where
  "unsqueeze0 a = a\<lparr>shape := 1 # shape a\<rparr>"

text \<open>
  \<^verbatim>\<open>np.concatenate(arrays, axis=0)\<close>: the arrays must have at least one axis and agree
  on all axes but the first.
\<close>

definition concatenate0 :: "'a ndarr list \<Rightarrow> exn + 'a ndarr" where
  "concatenate0 arrays =
     (case arrays of
        [] \<Rightarrow> Inl (ValueError ''need at least one array to concatenate'')
      | a # rest \<Rightarrow>
          if list_all (\<lambda>b. shape b \<noteq> [] \<and> tl (shape b) = tl (shape a)) (a # rest)
          then Inr \<lparr> shape = sum_list (map (\<lambda>b. hd (shape b)) (a # rest)) # tl (shape a),
                     flat = concat (map flat (a # rest)) \<rparr>
          else Inl (ValueError ''all the input array dimensions except for the concatenation axis must match exactly''))"

text \<open>A list comprehension whose body can raise: the first exception ends it.\<close>

fun mapE :: "('a \<Rightarrow> exn + 'b) \<Rightarrow> 'a list \<Rightarrow> exn + 'b list" where
  "mapE f [] = Inr []"
| "mapE f (x # xs) =
     (case f x of
        Inl e \<Rightarrow> Inl e
      | Inr y \<Rightarrow> (case mapE f xs of Inl e \<Rightarrow> Inl e | Inr ys \<Rightarrow> Inr (y # ys)))"

section \<open>Images handed to the preparation helpers\<close>

text \<open>
  A PIL image, as far as the helpers look at it: its size and the pixels that
  \<^verbatim>\<open>np.array(image.convert("RGB"))\<close> (shape (height, width, 3)) and
  \<^verbatim>\<open>np.array(image.convert("L"))\<close> (shape (height, width)) give. The conversions
  themselves are PIL's.
\<close>

record pil_image =
  width :: nat
  height :: nat
  rgb :: "8 word list"
  lum :: "8 word list"

datatype img_item = PIL pil_image | Nd "real ndarr"

text \<open>\<^verbatim>\<open>np.array(i.convert("RGB"))[None, :]\<close>; an ndarray has no \<^verbatim>\<open>convert\<close>.\<close>

definition rgb_array :: "pil_image \<Rightarrow> real ndarr" where
  "rgb_array i = \<lparr> shape = [height i, width i, 3], flat = map (\<lambda>v. real (unat v)) (rgb i) \<rparr>"

fun rgb_batch1 :: "img_item \<Rightarrow> exn + real ndarr" where
  "rgb_batch1 (PIL i) = Inr (unsqueeze0 (rgb_array i))"
| "rgb_batch1 (Nd a) = Inl AttributeError"

text \<open>
  \<^verbatim>\<open>i[None, :]\<close> on an ndarray: the slice needs an axis to act on; a PIL image cannot
  be subscripted.
\<close>

fun nd_batch1 :: "img_item \<Rightarrow> exn + real ndarr" where
  "nd_batch1 (Nd a) = (if shape a = [] then Inl IndexError else Inr (unsqueeze0 a))"
| "nd_batch1 (PIL i) = Inl TypeError"

text \<open>\<^verbatim>\<open>a.transpose(0, 3, 1, 2)\<close>: (N, H, W, C) becomes (N, C, H, W).\<close>

definition transpose_0312 :: "real ndarr \<Rightarrow> exn + real ndarr" where
  "transpose_0312 a =
     (case shape a of
        [N, H, W, C] \<Rightarrow>
          Inr \<lparr> shape = [N, C, H, W],
                flat = elems (tab4 N C H W
                         (\<lambda>n c h w. flat a ! (((n * H + h) * W + w) * C + c))) \<rparr>
      | _ \<Rightarrow> Inl (ValueError ''axes don't match array''))"

datatype image_arg = ImageTensor "real ndarr" | ImageItem img_item | ImageList "img_item list"

text \<open>
  \<^verbatim>\<open>prepare_image\<close>. A tensor is only batched (and cast to float32, which the idealised
  elements do not show). Anything else becomes a list, is stacked according to the type of
  its first element, moved to channel-first order and scaled.
\<close>

definition scale_pixels :: "real ndarr \<Rightarrow> real ndarr" where
  "scale_pixels a = a\<lparr>flat := map (\<lambda>v. v / 127.5 - 1.0) (flat a)\<rparr>"

definition prepare_image_list :: "img_item list \<Rightarrow> exn + real ndarr" where
  "prepare_image_list imgs =
     (case imgs of
        [] \<Rightarrow> Inl IndexError
      | first # rest \<Rightarrow>
          (case (case first of
                   PIL p \<Rightarrow> (case mapE rgb_batch1 imgs of
                               Inl e \<Rightarrow> Inl e | Inr arrays \<Rightarrow> concatenate0 arrays)
                 | Nd a \<Rightarrow> (case mapE nd_batch1 imgs of
                               Inl e \<Rightarrow> Inl e | Inr arrays \<Rightarrow> concatenate0 arrays)) of
             Inl e \<Rightarrow> Inl e
           | Inr stacked \<Rightarrow>
               (case transpose_0312 stacked of
                  Inl e \<Rightarrow> Inl e
                | Inr t \<Rightarrow> Inr (scale_pixels t))))"

fun prepare_image :: "image_arg \<Rightarrow> exn + real ndarr" where
  "prepare_image (ImageTensor img) =
     Inr (if length (shape img) = 3 then unsqueeze0 img else img)"
| "prepare_image (ImageItem img) = prepare_image_list [img]"
| "prepare_image (ImageList imgs) = prepare_image_list imgs"

text \<open>
  For stating what \<^verbatim>\<open>prepare_image\<close> computes: the channel-last pixel array an item
  stands for, and whether the items of a list all have the type of one kind.
\<close>

fun pixels_of :: "img_item \<Rightarrow> real ndarr" where
  "pixels_of (PIL i) = rgb_array i"
| "pixels_of (Nd a) = a"

fun is_PIL :: "img_item \<Rightarrow> bool" where
  "is_PIL (PIL i) = True"
| "is_PIL (Nd a) = False"

definition same_type_items :: "img_item list \<Rightarrow> bool" where
  "same_type_items imgs = (list_all is_PIL imgs \<or> list_all (\<lambda>i. \<not> is_PIL i) imgs)"

section \<open>Mask preparation, with the tensor's storage made explicit\<close>

text \<open>
  \<^verbatim>\<open>prepare_mask_image\<close> writes into its argument when that is a tensor, so tensors are
  references here: a tensor is the address of its storage and a shape, and the heap maps
  addresses (positions in a list) to the stored elements. \<^verbatim>\<open>unsqueeze\<close> gives a view:
  another shape on the same storage. A tensor owns its whole storage, contiguously.
\<close>

type_synonym heap = "real list list"

record tref =
  storage :: nat
  tshape :: "nat list"

text \<open>\<^verbatim>\<open>x[cond] = c\<close> with \<open>cond\<close> computed from \<open>x\<close> itself, elementwise.\<close>

definition assign_where :: "(real \<Rightarrow> bool) \<Rightarrow> real \<Rightarrow> real list \<Rightarrow> real list" where
  "assign_where cond c xs = map (\<lambda>v. if cond v then c else v) xs"

text \<open>
  The two statements \<^verbatim>\<open>mask_image[mask_image < 0.5] = 0\<close> and
  \<^verbatim>\<open>mask_image[mask_image >= 0.5] = 1\<close>, in this order; the second sees the result of
  the first.
\<close>

definition binarize_inplace :: "real list \<Rightarrow> real list" where
  "binarize_inplace xs =
     assign_where (\<lambda>v. v \<ge> 0.5) 1 (assign_where (\<lambda>v. v < 0.5) 0 xs)"

definition lum_array :: "pil_image \<Rightarrow> real ndarr" where
  "lum_array i = \<lparr> shape = [height i, width i], flat = map (\<lambda>v. real (unat v)) (lum i) \<rparr>"

text \<open>\<^verbatim>\<open>np.array(m.convert("L"))[None, None, :]\<close> and \<^verbatim>\<open>m[None, None, :]\<close>.\<close>

fun lum_batch1 :: "img_item \<Rightarrow> exn + real ndarr" where
  "lum_batch1 (PIL m) = Inr (unsqueeze0 (unsqueeze0 (lum_array m)))"
| "lum_batch1 (Nd a) = Inl AttributeError"

fun nd_mask_batch1 :: "img_item \<Rightarrow> exn + real ndarr" where
  "nd_mask_batch1 (Nd a) =
     (if shape a = [] then Inl IndexError else Inr (unsqueeze0 (unsqueeze0 a)))"
| "nd_mask_batch1 (PIL m) = Inl TypeError"

text \<open>
  The branch for everything that is not a tensor, up to the array that
  \<^verbatim>\<open>torch.from_numpy\<close> wraps. \<^verbatim>\<open>np.concatenate\<close> builds a new array, so the caller's
  arrays are not written to.
\<close>

definition prepare_mask_list :: "img_item list \<Rightarrow> exn + real ndarr" where
  "prepare_mask_list masks =
     (case masks of
        [] \<Rightarrow> Inl IndexError
      | first # rest \<Rightarrow>
          (case (case first of
                   PIL p \<Rightarrow>
                     (case mapE lum_batch1 masks of
                        Inl e \<Rightarrow> Inl e
                      | Inr arrays \<Rightarrow>
                          (case concatenate0 arrays of
                             Inl e \<Rightarrow> Inl e
                           | Inr m \<Rightarrow> Inr (m\<lparr>flat := map (\<lambda>v. v / 255.0) (flat m)\<rparr>)))
                 | Nd a \<Rightarrow>
                     (case mapE nd_mask_batch1 masks of
                        Inl e \<Rightarrow> Inl e
                      | Inr arrays \<Rightarrow> concatenate0 arrays)) of
             Inl e \<Rightarrow> Inl e
           | Inr m \<Rightarrow> Inr (m\<lparr>flat := binarize_inplace (flat m)\<rparr>)))"

text \<open>\<^verbatim>\<open>torch.from_numpy\<close> of a fresh array: a tensor on new storage.\<close>

definition from_numpy :: "real ndarr \<Rightarrow> heap \<Rightarrow> tref \<times> heap" where
  "from_numpy a h = (\<lparr> storage = length h, tshape = shape a \<rparr>, h @ [flat a])"

text \<open>
  The tensor branch: a view with the batch and channel axes added, then the two indexed
  assignments through that view, which write into the storage the argument shares.
\<close>

definition unsqueeze_mask :: "tref \<Rightarrow> tref" where
  "unsqueeze_mask t =
     (let s = tshape t in
      if length s = 2 then t\<lparr>tshape := 1 # 1 # s\<rparr>
      else if length s = 3 \<and> hd s = 1 then t\<lparr>tshape := 1 # s\<rparr>
      else if length s = 3 \<and> hd s \<noteq> 1 then t\<lparr>tshape := hd s # 1 # tl s\<rparr>
      else t)"

definition prepare_mask_tensor :: "tref \<Rightarrow> heap \<Rightarrow> tref \<times> heap" where
  "prepare_mask_tensor t h =
     (unsqueeze_mask t, h[storage t := binarize_inplace (h ! storage t)])"

datatype mask_arg = MaskTensor tref | MaskItem img_item | MaskList "img_item list"

fun prepare_mask_image :: "mask_arg \<Rightarrow> heap \<Rightarrow> exn + (tref \<times> heap)" where
  "prepare_mask_image (MaskTensor t) h = Inr (prepare_mask_tensor t h)"
| "prepare_mask_image (MaskItem m) h =
     (case prepare_mask_list [m] of Inl e \<Rightarrow> Inl e | Inr a \<Rightarrow> Inr (from_numpy a h))"
| "prepare_mask_image (MaskList ms) h =
     (case prepare_mask_list ms of Inl e \<Rightarrow> Inl e | Inr a \<Rightarrow> Inr (from_numpy a h))"

text \<open>
  For stating the claims about masks: the rule of the specification, the values the
  thresholds are applied to (a PIL mask is divided by 255 first, an array or tensor is
  taken as it is), and the arguments the function accepts: a live tensor, or masks of one
  type and one shape, each with at least one axis.
\<close>

definition threshold_rule :: "real \<Rightarrow> real" where
  "threshold_rule v = (if v < 0.5 then 0 else 1)"

fun item_values :: "img_item \<Rightarrow> real list" where
  "item_values (PIL m) = map (\<lambda>v. real (unat v) / 255.0) (lum m)"
| "item_values (Nd a) = flat a"

fun mask_values :: "mask_arg \<Rightarrow> heap \<Rightarrow> real list" where
  "mask_values (MaskTensor t) h = h ! storage t"
| "mask_values (MaskItem m) h = item_values m"
| "mask_values (MaskList ms) h = concat (map item_values ms)"

fun mask_shape :: "img_item \<Rightarrow> nat list" where
  "mask_shape (PIL m) = [height m, width m]"
| "mask_shape (Nd a) = shape a"

definition valid_mask_list :: "img_item list \<Rightarrow> bool" where
  "valid_mask_list ms =
     (ms \<noteq> [] \<and> same_type_items ms \<and>
      list_all (\<lambda>m. mask_shape m \<noteq> [] \<and> mask_shape m = mask_shape (hd ms)) ms)"

fun valid_mask_arg :: "mask_arg \<Rightarrow> heap \<Rightarrow> bool" where
  "valid_mask_arg (MaskTensor t) h = (storage t < length h)"
| "valid_mask_arg (MaskItem m) h = valid_mask_list [m]"
| "valid_mask_arg (MaskList ms) h = valid_mask_list ms"

fun mask_array :: "img_item \<Rightarrow> real ndarr" where
  "mask_array (PIL m) = lum_array m"
| "mask_array (Nd a) = a"

section \<open>Pasting a result back into the original image\<close>

text \<open>
  \<^verbatim>\<open>repaint_result\<close> starts from \<^verbatim>\<open>np.array\<close> of its three arguments. For a
  multi-band image (RGB) that is a uint8 array of shape (rows, cols, chans); for a
  single-band mask (mode L) it is a uint8 array of shape (rows, cols). The two record
  types are these arrays.
\<close>

record band_image =
  rows :: nat
  cols :: nat
  chans :: nat
  vals :: "8 word list"

record mask_image =
  mrows :: nat
  mcols :: nat
  mvals :: "8 word list"

text \<open>
  numpy broadcasts by aligning shapes at the right and padding with 1 at the left, so a
  rank-3 array (rows, cols, chans) behaves as the rank-4 array (1, rows, cols, chans), and
  the elementwise operations above apply. numpy reports a mismatch as ValueError.
\<close>

definition image_tensor :: "band_image \<Rightarrow> tensor4" where
  "image_tensor i =
     \<lparr> nb = 1, nc = rows i, nh = cols i, nw = chans i,
       elems = map (\<lambda>v. real (unat v)) (vals i) \<rparr>"

text \<open>\<^verbatim>\<open>np.expand_dims(mask, axis=2)\<close> and \<^verbatim>\<open>mask / 255.0\<close>.\<close>

definition mask_tensor :: "mask_image \<Rightarrow> tensor4" where
  "mask_tensor m =
     \<lparr> nb = 1, nc = mrows m, nh = mcols m, nw = 1,
       elems = map (\<lambda>v. real (unat v) / 255.0) (mvals m) \<rparr>"

definition np_binop :: "(real \<Rightarrow> real \<Rightarrow> real) \<Rightarrow> tensor4 \<Rightarrow> tensor4 \<Rightarrow> exn + tensor4" where
  "np_binop f x y =
     (case binop f x y of
        Inl e \<Rightarrow> Inl (ValueError ''operands could not be broadcast together'')
      | Inr r \<Rightarrow> Inr r)"

text \<open>
  \<^verbatim>\<open>astype(np.uint8)\<close> cuts the fraction off. The blended values are never negative, so
  cutting is rounding down; they never exceed 255, so the reduction modulo 256 that
  \<open>word_of_int\<close> does changes nothing.
\<close>

definition to_uint8 :: "real \<Rightarrow> 8 word" where
  "to_uint8 v = word_of_int \<lfloor>v\<rfloor>"

text \<open>
  \<^verbatim>\<open>Image.fromarray\<close> on a rank-3 uint8 array: PIL has a mode for 2, 3 and 4 bands
  (LA, RGB, RGBA) and raises TypeError for any other band count.
\<close>

definition fromarray :: "tensor4 \<Rightarrow> exn + band_image" where
  "fromarray t =
     (if nw t = 2 \<or> nw t = 3 \<or> nw t = 4
      then Inr \<lparr> rows = nc t, cols = nh t, chans = nw t, vals = map to_uint8 (elems t) \<rparr>
      else Inl TypeError)"

definition repaint_result :: "band_image \<Rightarrow> band_image \<Rightarrow> mask_image \<Rightarrow> exn + band_image" where
  "repaint_result result person_image mask_image =
     (let result = image_tensor result;
          person = image_tensor person_image;
          mask = mask_tensor mask_image
      in
      case np_binop (*) result mask of
        Inl e \<Rightarrow> Inl e
      | Inr a \<Rightarrow>
      (case np_binop (*) person (tmap (\<lambda>m. 1 - m) mask) of
         Inl e \<Rightarrow> Inl e
       | Inr b \<Rightarrow>
      (case np_binop (+) a b of
         Inl e \<Rightarrow> Inl e
       | Inr result_ \<Rightarrow> fromarray result_)))"

section \<open>Geometric resizing\<close>

text \<open>
  A PIL image for \<^verbatim>\<open>resize_and_crop\<close> and \<^verbatim>\<open>resize_and_padding\<close>: its size
  (width, height), as Python integers, and its RGB pixel at column \<open>x\<close> and row \<open>y\<close>.
  Only the pixels with \<open>0 \<le> x < width\<close> and \<open>0 \<le> y < height\<close> belong to the image.
\<close>

type_synonym pixel = "8 word \<times> 8 word \<times> 8 word"

record pimage =
  pw :: int
  ph :: int
  px :: "int \<Rightarrow> int \<Rightarrow> pixel"

text \<open>
  The Lanczos filter is PIL's; what it computes for a source image and a target size is a
  parameter of the model: the pixels of the resized image.
\<close>

type_synonym resampler = "pimage \<Rightarrow> int \<times> int \<Rightarrow> int \<Rightarrow> int \<Rightarrow> pixel"


text \<open>\<^verbatim>\<open>Image.resize(size, Image.LANCZOS)\<close>: PIL requires a target of at least 1 by 1.\<close>

definition pil_resize :: "resampler \<Rightarrow> pimage \<Rightarrow> int \<times> int \<Rightarrow> exn + pimage" where
  "pil_resize lanczos im sz =
     (if fst sz < 1 \<or> snd sz < 1 then Inl (ValueError ''height and width must be > 0'')
      else Inr \<lparr> pw = fst sz, ph = snd sz, px = lanczos im sz \<rparr>)"

text \<open>\<^verbatim>\<open>Image.new("RGB", size, color)\<close>.\<close>

definition pil_new :: "int \<times> int \<Rightarrow> pixel \<Rightarrow> exn + pimage" where
  "pil_new sz color =
     (if fst sz < 0 \<or> snd sz < 0 then Inl (ValueError ''Width and height must be >= 0'')
      else Inr \<lparr> pw = fst sz, ph = snd sz, px = (\<lambda>x y. color) \<rparr>)"

text \<open>
  \<^verbatim>\<open>canvas.paste(im, (ox, oy))\<close>: the pixels of \<open>im\<close> replace those of the canvas in the
  region of the size of \<open>im\<close> whose upper left corner is (ox, oy); the canvas keeps its
  size.
\<close>

definition pil_paste :: "pimage \<Rightarrow> pimage \<Rightarrow> int \<times> int \<Rightarrow> pimage" where
  "pil_paste canvas im offset =
     canvas\<lparr>px := (\<lambda>x y. if fst offset \<le> x \<and> x < fst offset + pw im \<and>
                            snd offset \<le> y \<and> y < snd offset + ph im
                         then px im (x - fst offset) (y - snd offset)
                         else px canvas x y)\<rparr>"

text \<open>Python's \<^verbatim>\<open>a / b\<close> and \<^verbatim>\<open>a // b\<close> on integers: both raise on a zero divisor.\<close>

definition true_div :: "int \<Rightarrow> int \<Rightarrow> exn + real" where
  "true_div a b = (if b = 0 then Inl ZeroDivisionError else Inr (real_of_int a / real_of_int b))"

definition floor_div :: "int \<Rightarrow> int \<Rightarrow> exn + int" where
  "floor_div a b = (if b = 0 then Inl ZeroDivisionError else Inr (a div b))"


definition white :: pixel where
  "white = (255, 255, 255)"

definition resize_and_padding :: "resampler \<Rightarrow> pimage \<Rightarrow> int \<times> int \<Rightarrow> exn + pimage" where
  "resize_and_padding lanczos img sz =
     (let w = pw img; h = ph img; target_w = fst sz; target_h = snd sz in
      case true_div w h of Inl e \<Rightarrow> Inl e | Inr image_ratio \<Rightarrow>
      case true_div target_w target_h of Inl e \<Rightarrow> Inl e | Inr target_ratio \<Rightarrow>
      case (if image_ratio < target_ratio
            then (case floor_div (w * target_h) h of
                    Inl e \<Rightarrow> Inl e | Inr new_w \<Rightarrow> Inr (new_w, target_h))
            else (case floor_div (h * target_w) w of
                    Inl e \<Rightarrow> Inl e | Inr new_h \<Rightarrow> Inr (target_w, new_h))) of
        Inl e \<Rightarrow> Inl e
      | Inr (new_w, new_h) \<Rightarrow>
          (case pil_resize lanczos img (new_w, new_h) of
             Inl e \<Rightarrow> Inl e
           | Inr resized \<Rightarrow>
               (case pil_new sz white of
                  Inl e \<Rightarrow> Inl e
                | Inr padding \<Rightarrow>
                    Inr (pil_paste padding resized
                           ((target_w - new_w) div 2, (target_h - new_h) div 2)))))"


definition solid_image :: "int \<Rightarrow> int \<Rightarrow> pixel \<Rightarrow> pimage" where
  "solid_image w h p = \<lparr> pw = w, ph = h, px = (\<lambda>x y. p) \<rparr>"

definition solid_resampler :: "pixel \<Rightarrow> resampler" where
  "solid_resampler p im sz x y = p"


section \<open>The remote inference calls of the front end\<close>

text \<open>
  \<^verbatim>\<open>submit_function\<close> and \<^verbatim>\<open>pose_transfer_function\<close> of \<^verbatim>\<open>gradio_fronend.py\<close> read
  files, post a request and decode the answer. Everything outside the process is a field
  of the environment: the configured URLs, the file system, the network, and the library
  decoders, each of which can raise.
\<close>

datatype jval = JStr string | JInt int | JNum real

record request =
  url :: string
  files :: "(string \<times> string \<times> string \<times> string) list"
  data :: "(string \<times> string) list"

record response =
  status_code :: int
  body_text :: string

record 'img env =
  style_transfer_api :: string
  pose_transfer_api :: string
  resize_image_to_buffer :: "string \<Rightarrow> exn + string"
  open_rb :: "string \<Rightarrow> exn + string"
  json_dumps :: "(string \<times> jval) list \<Rightarrow> string"
  post :: "request \<Rightarrow> exn + response"
  response_json :: "string \<Rightarrow> exn + (string \<times> string) list"
  b64decode :: "string \<Rightarrow> exn + string"
  image_open :: "string \<Rightarrow> exn + 'img"

text \<open>\<^verbatim>\<open>result[key]\<close> on the decoded JSON object.\<close>

definition getitem :: "(string \<times> string) list \<Rightarrow> string \<Rightarrow> exn + string" where
  "getitem d k = (case map_of d k of None \<Rightarrow> Inl (KeyError k) | Some v \<Rightarrow> Inr v)"

text \<open>Python's \<^verbatim>\<open>str\<close> of an integer, as the f-string uses it.\<close>

fun str_nat :: "nat \<Rightarrow> string" where
  "str_nat n =
     (if n < 10 then [''0123456789'' ! n]
      else str_nat (n div 10) @ [''0123456789'' ! (n mod 10)])"

declare str_nat.simps [simp del]

definition str_int :: "int \<Rightarrow> string" where
  "str_int i = (if i < 0 then CHR ''-'' # str_nat (nat (- i)) else str_nat (nat i))"

definition api_error :: "response \<Rightarrow> exn" where
  "api_error r = RuntimeError (''API error '' @ str_int (status_code r) @ '': '' @ body_text r)"

definition style_request ::
  "'img env \<Rightarrow> string \<Rightarrow> string \<Rightarrow> string \<Rightarrow> int \<Rightarrow> real \<Rightarrow> int \<Rightarrow> request" where
  "style_request e person_buffer cloth_buffer cloth_type num_inference_steps guidance_scale seed =
     \<lparr> url = style_transfer_api e,
       files = [(''person_image'', ''person.jpg'', person_buffer, ''image/jpeg''),
                (''cloth_image'', ''cloth.jpg'', cloth_buffer, ''image/jpeg'')],
       data = [(''config_json'',
                json_dumps e [(''cloth_type'', JStr cloth_type),
                              (''num_inference_steps'', JInt num_inference_steps),
                              (''guidance_scale'', JNum guidance_scale),
                              (''seed'', JInt seed)])] \<rparr>"

definition submit_function ::
  "'img env \<Rightarrow> string \<Rightarrow> string \<Rightarrow> string \<Rightarrow> int \<Rightarrow> real \<Rightarrow> int \<Rightarrow> exn + ('img \<times> 'img)" where
  "submit_function e person_image cloth_image cloth_type num_inference_steps guidance_scale seed =
     (case resize_image_to_buffer e person_image of Inl x \<Rightarrow> Inl x | Inr person_buffer \<Rightarrow>
      case resize_image_to_buffer e cloth_image of Inl x \<Rightarrow> Inl x | Inr cloth_buffer \<Rightarrow>
      case post e (style_request e person_buffer cloth_buffer cloth_type num_inference_steps
                     guidance_scale seed) of Inl x \<Rightarrow> Inl x | Inr response \<Rightarrow>
      if status_code response = 200 then
        (case response_json e (body_text response) of Inl x \<Rightarrow> Inl x | Inr result \<Rightarrow>
         case getitem result ''masked_image'' of Inl x \<Rightarrow> Inl x | Inr masked64 \<Rightarrow>
         case b64decode e masked64 of Inl x \<Rightarrow> Inl x | Inr masked_image_bytes \<Rightarrow>
         case getitem result ''result_image'' of Inl x \<Rightarrow> Inl x | Inr result64 \<Rightarrow>
         case b64decode e result64 of Inl x \<Rightarrow> Inl x | Inr result_image_bytes \<Rightarrow>
         case image_open e masked_image_bytes of Inl x \<Rightarrow> Inl x | Inr masked_img \<Rightarrow>
         case image_open e result_image_bytes of Inl x \<Rightarrow> Inl x | Inr result_img \<Rightarrow>
         Inr (masked_img, result_img))
      else Inl (api_error response))"

definition pose_request :: "'img env \<Rightarrow> string \<Rightarrow> string \<Rightarrow> int \<Rightarrow> real \<Rightarrow> int \<Rightarrow> request" where
  "pose_request e f1 f2 num_inference_steps guidance_scale seed =
     \<lparr> url = pose_transfer_api e,
       files = [(''person_image'', ''person.jpg'', f1, ''image/jpeg''),
                (''pose_image'', ''pose.jpg'', f2, ''image/jpeg'')],
       data = [(''config_json'',
                json_dumps e [(''num_inference_steps'', JInt num_inference_steps),
                              (''guidance_scale'', JNum guidance_scale),
                              (''seed'', JInt seed)])] \<rparr>"

definition pose_transfer_function ::
  "'img env \<Rightarrow> string \<Rightarrow> string \<Rightarrow> int \<Rightarrow> real \<Rightarrow> int \<Rightarrow> exn + 'img" where
  "pose_transfer_function e person_image pose_image num_inference_steps guidance_scale seed =
     (case open_rb e person_image of Inl x \<Rightarrow> Inl x | Inr f1 \<Rightarrow>
      case open_rb e pose_image of Inl x \<Rightarrow> Inl x | Inr f2 \<Rightarrow>
      case post e (pose_request e f1 f2 num_inference_steps guidance_scale seed) of
        Inl x \<Rightarrow> Inl x | Inr response \<Rightarrow>
      if status_code response = 200 then
        (case response_json e (body_text response) of Inl x \<Rightarrow> Inl x | Inr result \<Rightarrow>
         case getitem result ''result_pose'' of Inl x \<Rightarrow> Inl x | Inr pose64 \<Rightarrow>
         case b64decode e pose64 of Inl x \<Rightarrow> Inl x | Inr result_pose_bytes \<Rightarrow>
         case image_open e result_pose_bytes of Inl x \<Rightarrow> Inl x | Inr result_pose \<Rightarrow>
         Inr result_pose)
      else Inl (api_error response))"

text \<open>
  An environment for trying the calls out: every file reads as its own name, the server
  answers every request with the given status and body, the body parses to the given JSON
  object, base64 text decodes to itself, and an image is the bytes it was decoded from.
\<close>

definition demo_env :: "int \<Rightarrow> string \<Rightarrow> (string \<times> string) list \<Rightarrow> string env" where
  "demo_env code answer parsed =
     \<lparr> style_transfer_api = ''http://host/style'',
       pose_transfer_api = ''http://host/pose'',
       resize_image_to_buffer = (\<lambda>path. Inr path),
       open_rb = (\<lambda>path. Inr path),
       json_dumps = (\<lambda>config. ''{}''),
       post = (\<lambda>rq. Inr \<lparr> status_code = code, body_text = answer \<rparr>),
       response_json = (\<lambda>t. Inr parsed),
       b64decode = (\<lambda>s. Inr s),
       image_open = (\<lambda>bytes. Inr bytes) \<rparr>"

section \<open>Latent encodings\<close>

text \<open>
  \<^verbatim>\<open>vae.encode(pixel_values).latent_dist.sample()\<close> draws from a distribution: it reads
  torch's default random generator and advances it. The state of the generator is the
  sequence of the standard normal values it will hand out next. The encoder, as
  \<^verbatim>\<open>compute_vae_encodings\<close> uses it, is its \<^verbatim>\<open>config.scaling_factor\<close> and this
  sampling call, a function of the input and the generator's state. The casts to float and
  to the encoder's dtype do not show on idealised elements.
\<close>

type_synonym generator = "nat \<Rightarrow> real"

record vae =
  scaling_factor :: real
  encode_sample :: "real ndarr \<Rightarrow> generator \<Rightarrow> real ndarr \<times> generator"

definition compute_vae_encodings :: "real ndarr \<Rightarrow> vae \<Rightarrow> generator \<Rightarrow> real ndarr \<times> generator" where
  "compute_vae_encodings img v g =
     (let pixel_values = img;
          (model_input, g') = encode_sample v pixel_values g
      in (model_input\<lparr>flat := map (\<lambda>x. x * scaling_factor v) (flat model_input)\<rparr>, g'))"

text \<open>
  An encoder of the kind the library provides, cut down to its sampling: the posterior
  mean is the input itself, the standard deviation is the same everywhere, and a sample is
  mean + std * noise, with one value of noise taken from the generator per element.
\<close>

definition gaussian_vae :: "real \<Rightarrow> real \<Rightarrow> vae" where
  "gaussian_vae factor std =
     \<lparr> scaling_factor = factor,
       encode_sample =
         (\<lambda>x g. (x\<lparr>flat := map (\<lambda>i. flat x ! i + std * g i) [0..<length (flat x)]\<rparr>,
                  (\<lambda>i. g (i + length (flat x))))) \<rparr>"

section \<open>Properties of the tensor operations\<close>

lemma length_concat_rect:
  "\<forall>x\<in>set xss. length x = k \<Longrightarrow> length (concat xss) = length xss * k"
  by (induction xss) auto

lemma nth_concat_rect:
  "\<forall>x\<in>set xss. length x = k \<Longrightarrow> i < length xss \<Longrightarrow> j < k \<Longrightarrow>
   concat xss ! (i * k + j) = xss ! i ! j"
proof (induction xss arbitrary: i)
  case Nil
  then show ?case by simp
next
  case (Cons x xss)
  show ?case
  proof (cases i)
    case 0
    with Cons.prems show ?thesis by (simp add: nth_append)
  next
    case (Suc i')
    with Cons.prems have "concat xss ! (i' * k + j) = xss ! i' ! j"
      by (intro Cons.IH) auto
    with Cons.prems Suc show ?thesis by (simp add: nth_append)
  qed
qed

lemma length_tab_row: "length (concat (map (\<lambda>i. g i) [0..<n])) = n * k"
  if "\<And>i. i < n \<Longrightarrow> length (g i) = k"
  using that length_concat_rect [of "map g [0..<n]" k] by auto

lemma nth_tab_row:
  assumes "\<And>i. i < n \<Longrightarrow> length (g i) = k" "i < n" "j < k"
  shows "concat (map g [0..<n]) ! (i * k + j) = g i ! j"
  using assms nth_concat_rect [of "map g [0..<n]" k i j] by auto

lemma length_elems_tab4: "length (elems (tab4 B C H W f)) = B * C * H * W"
  unfolding tab4_def
  by (simp add: length_tab_row [where k = "C * H * W"] length_tab_row [where k = "H * W"] length_tab_row [where k = "W"])

lemma get4_tab4:
  assumes "b < B" "c < C" "h < H" "w < W"
  shows "get4 (tab4 B C H W f) b c h w = f b c h w"
proof -
  let ?row = "\<lambda>b c h. map (\<lambda>w. f b c h w) [0..<W]"
  let ?pl = "\<lambda>b c. concat (map (?row b c) [0..<H])"
  let ?vol = "\<lambda>b. concat (map (?pl b) [0..<C])"
  have lr: "\<And>b c h. length (?row b c h) = W" by simp
  have lp: "\<And>b c. length (?pl b c) = H * W"
    by (rule length_tab_row) simp
  have lv: "\<And>b. length (?vol b) = C * (H * W)"
    by (rule length_tab_row) (rule lp)
  have hw: "h * W + w < H * W"
  proof -
    have "h * W + w < h * W + W" using assms by simp
    also have "\<dots> = Suc h * W" by simp
    also have "\<dots> \<le> H * W" using assms by (intro mult_le_mono1) simp
    finally show ?thesis .
  qed
  have chw: "c * (H * W) + (h * W + w) < C * (H * W)"
  proof -
    have "c * (H * W) + (h * W + w) < c * (H * W) + H * W" using hw by simp
    also have "\<dots> = Suc c * (H * W)" by simp
    also have "\<dots> \<le> C * (H * W)" using assms by (intro mult_le_mono1) simp
    finally show ?thesis .
  qed
  have idx: "((b * C + c) * H + h) * W + w = b * (C * (H * W)) + (c * (H * W) + (h * W + w))"
    by (simp add: algebra_simps)
  have "concat (map ?vol [0..<B]) ! (b * (C * (H * W)) + (c * (H * W) + (h * W + w)))
        = ?vol b ! (c * (H * W) + (h * W + w))"
    using assms chw by (intro nth_tab_row lv) auto
  also have "\<dots> = ?pl b c ! (h * W + w)"
    using assms hw by (intro nth_tab_row lp) auto
  also have "\<dots> = ?row b c h ! w"
    using assms by (intro nth_tab_row) auto
  also have "\<dots> = f b c h w" using assms by simp
  finally show ?thesis
    by (simp add: get4_def tab4_def idx)
qed


lemma tab4_cong:
  assumes "\<And>b c h w. b < B \<Longrightarrow> c < C \<Longrightarrow> h < H \<Longrightarrow> w < W \<Longrightarrow> f b c h w = g b c h w"
  shows "tab4 B C H W f = tab4 B C H W g"
  unfolding tab4_def using assms by (auto intro!: arg_cong [where f = concat] map_cong)

lemma tab4_shape [simp]:
  "nb (tab4 B C H W f) = B" "nc (tab4 B C H W f) = C"
  "nh (tab4 B C H W f) = H" "nw (tab4 B C H W f) = W"
  by (simp_all add: tab4_def)

lemma bget4_in_range:
  "b < nb t \<Longrightarrow> c < nc t \<Longrightarrow> h < nh t \<Longrightarrow> w < nw t \<Longrightarrow> bget4 t b c h w = get4 t b c h w"
  by (auto simp: bget4_def)

lemma bget4_batch_vec:
  "nc t = 1 \<Longrightarrow> nh t = 1 \<Longrightarrow> nw t = 1 \<Longrightarrow> b < nb t \<Longrightarrow> bget4 t b c h w = elems t ! b"
  by (auto simp: bget4_def get4_def)

lemma bdim_simps [simp]:
  "bdim n n = Some n" "bdim (Suc 0) n = Some n" "bdim n (Suc 0) = Some n"
  by (auto simp: bdim_def)

lemma binop_same:
  assumes "same_shape x y"
  shows "binop f x y = Inr (tab4 (nb x) (nc x) (nh x) (nw x)
           (\<lambda>b c h w. f (get4 x b c h w) (get4 y b c h w)))"
proof -
  have "tab4 (nb x) (nc x) (nh x) (nw x) (\<lambda>b c h w. f (bget4 x b c h w) (bget4 y b c h w))
      = tab4 (nb x) (nc x) (nh x) (nw x) (\<lambda>b c h w. f (get4 x b c h w) (get4 y b c h w))"
    using assms by (intro tab4_cong) (simp add: bget4_in_range same_shape_def)
  with assms show ?thesis by (simp add: binop_def same_shape_def)
qed

lemma binop_vec_right:
  assumes "nb v = nb x" "nc v = 1" "nh v = 1" "nw v = 1"
  shows "binop f x v = Inr (tab4 (nb x) (nc x) (nh x) (nw x)
           (\<lambda>b c h w. f (get4 x b c h w) (elems v ! b)))"
proof -
  have "tab4 (nb x) (nc x) (nh x) (nw x) (\<lambda>b c h w. f (bget4 x b c h w) (bget4 v b c h w))
      = tab4 (nb x) (nc x) (nh x) (nw x) (\<lambda>b c h w. f (get4 x b c h w) (elems v ! b))"
    using assms by (intro tab4_cong) (simp add: bget4_in_range bget4_batch_vec)
  with assms show ?thesis by (simp add: binop_def)
qed

lemma binop_vec_left:
  assumes "nb v = nb x" "nc v = 1" "nh v = 1" "nw v = 1"
  shows "binop f v x = Inr (tab4 (nb x) (nc x) (nh x) (nw x)
           (\<lambda>b c h w. f (elems v ! b) (get4 x b c h w)))"
proof -
  have "tab4 (nb x) (nc x) (nh x) (nw x) (\<lambda>b c h w. f (bget4 v b c h w) (bget4 x b c h w))
      = tab4 (nb x) (nc x) (nh x) (nw x) (\<lambda>b c h w. f (elems v ! b) (get4 x b c h w))"
    using assms by (intro tab4_cong) (simp add: bget4_in_range bget4_batch_vec)
  with assms show ?thesis by (simp add: binop_def)
qed

lemma index_all_length: "index_all xs ts = Inr vs \<Longrightarrow> length vs = length ts"
  by (induction ts arbitrary: vs) (auto split: sum.splits)


lemma dream_epsilon_result:
  fixes unet :: "tensor4 \<Rightarrow> int list \<Rightarrow> 'h \<Rightarrow> tensor4"
  assumes eps: "prediction_type sch = ''epsilon''"
    and idx: "index_all (alphas_cumprod sch) ts = Inr as"
    and len: "length ts = nb noisy"
    and noise: "same_shape noise (channels_upto 4 noisy)"
    and pred: "same_shape (unet noisy ts ehs) noise"
    and target: "same_shape target noise"
  shows "compute_dream_and_update_latents_for_inpaint unet sch ts noise noisy target ehs p =
     Inr (tab4 (nb noisy) (min 4 (nc noisy) + (nc noisy - 4)) (nh noisy) (nw noisy)
            (\<lambda>b c h w.
               if c < min 4 (nc noisy)
               then get4 noisy b c h w +
                    sqrt (1 - as ! b) *
                      ((get4 noise b c h w - get4 (unet noisy ts ehs) b c h w) *
                        fpow (sqrt (1 - as ! b)) p)
               else get4 noisy b (c - min 4 (nc noisy) + 4) h w),
          tab4 (nb noisy) (min 4 (nc noisy)) (nh noisy) (nw noisy)
            (\<lambda>b c h w.
               get4 target b c h w +
               (get4 noise b c h w - get4 (unet noisy ts ehs) b c h w) *
                 fpow (sqrt (1 - as ! b)) p))"
proof -
  let ?B = "nb noisy" and ?C = "min 4 (nc noisy)" and ?H = "nh noisy" and ?W = "nw noisy"
  let ?pred = "unet noisy ts ehs"
  let ?s = "\<lparr> nb = length ts, nc = 1, nh = 1, nw = 1, elems = as \<rparr>"
  let ?S = "tmap (\<lambda>a. sqrt (1 - a)) ?s"
  let ?L = "tmap (\<lambda>s. fpow s p) ?S"
  have las: "length as = ?B" using index_all_length [OF idx] len by simp
  have sh: "nb noise = ?B" "nc noise = ?C" "nh noise = ?H" "nw noise = ?W"
    using noise by (simp_all add: same_shape_def channels_upto_def)
  have shp: "nb ?pred = ?B" "nc ?pred = ?C" "nh ?pred = ?H" "nw ?pred = ?W"
    using pred sh by (simp_all add: same_shape_def)
  have sht: "nb target = ?B" "nc target = ?C" "nh target = ?H" "nw target = ?W"
    using target sh by (simp_all add: same_shape_def)
  have ga: "gather_alphas (alphas_cumprod sch) ts = Inr ?s"
    by (simp add: gather_alphas_def idx)
  let ?d0 = "tab4 ?B ?C ?H ?W (\<lambda>b c h w. get4 noise b c h w - get4 ?pred b c h w)"
  have d0: "binop (-) noise ?pred = Inr ?d0"
    using binop_same [of noise ?pred "(-)"] pred sh by (simp add: same_shape_def)
  let ?delta = "tab4 ?B ?C ?H ?W
     (\<lambda>b c h w. (get4 noise b c h w - get4 ?pred b c h w) * fpow (sqrt (1 - as ! b)) p)"
  have "binop (*) ?d0 ?L = Inr (tab4 ?B ?C ?H ?W (\<lambda>b c h w. get4 ?d0 b c h w * elems ?L ! b))"
    using binop_vec_right [of ?L ?d0 "(*)"] len by (simp add: tmap_def)
  also have "tab4 ?B ?C ?H ?W (\<lambda>b c h w. get4 ?d0 b c h w * elems ?L ! b) = ?delta"
    using las by (intro tab4_cong) (simp add: get4_tab4 tmap_def)
  finally have delta: "binop_inplace (*) ?d0 ?L = Inr ?delta"
    by (simp add: binop_inplace_def same_shape_def)
  let ?scaled = "tab4 ?B ?C ?H ?W
     (\<lambda>b c h w. sqrt (1 - as ! b) *
        ((get4 noise b c h w - get4 ?pred b c h w) * fpow (sqrt (1 - as ! b)) p))"
  have "binop (*) ?S ?delta = Inr (tab4 ?B ?C ?H ?W (\<lambda>b c h w. elems ?S ! b * get4 ?delta b c h w))"
    using binop_vec_left [of ?S ?delta "(*)"] len by (simp add: tmap_def)
  also have "tab4 ?B ?C ?H ?W (\<lambda>b c h w. elems ?S ! b * get4 ?delta b c h w) = ?scaled"
    using las by (intro tab4_cong) (simp add: get4_tab4 tmap_def)
  finally have scaled: "binop (*) ?S ?delta = Inr ?scaled" .
  let ?nl = "tab4 ?B ?C ?H ?W
     (\<lambda>b c h w. get4 noisy b c h w + sqrt (1 - as ! b) *
        ((get4 noise b c h w - get4 ?pred b c h w) * fpow (sqrt (1 - as ! b)) p))"
  have "binop (+) (channels_upto 4 noisy) ?scaled
        = Inr (tab4 ?B ?C ?H ?W
            (\<lambda>b c h w. get4 (channels_upto 4 noisy) b c h w + get4 ?scaled b c h w))"
    using binop_same [of "channels_upto 4 noisy" ?scaled "(+)"]
    by (simp add: same_shape_def channels_upto_def)
  also have "tab4 ?B ?C ?H ?W
            (\<lambda>b c h w. get4 (channels_upto 4 noisy) b c h w + get4 ?scaled b c h w) = ?nl"
    by (intro tab4_cong) (simp add: get4_tab4 channels_upto_def)
  finally have nl: "binop (+) (channels_upto 4 noisy) ?scaled = Inr ?nl" .
  let ?tg = "tab4 ?B ?C ?H ?W
     (\<lambda>b c h w. get4 target b c h w +
        (get4 noise b c h w - get4 ?pred b c h w) * fpow (sqrt (1 - as ! b)) p)"
  have "binop (+) target ?delta
        = Inr (tab4 ?B ?C ?H ?W (\<lambda>b c h w. get4 target b c h w + get4 ?delta b c h w))"
    using binop_same [of target ?delta "(+)"] sht by (simp add: same_shape_def)
  also have "tab4 ?B ?C ?H ?W (\<lambda>b c h w. get4 target b c h w + get4 ?delta b c h w) = ?tg"
    by (intro tab4_cong) (simp add: get4_tab4)
  finally have tg: "binop (+) target ?delta = Inr ?tg" .
  let ?out = "tab4 ?B (?C + (nc noisy - 4)) ?H ?W
            (\<lambda>b c h w.
               if c < ?C
               then get4 noisy b c h w +
                    sqrt (1 - as ! b) *
                      ((get4 noise b c h w - get4 ?pred b c h w) * fpow (sqrt (1 - as ! b)) p)
               else get4 noisy b (c - ?C + 4) h w)"
  have "cat_channels ?nl (channels_from 4 noisy)
        = Inr (tab4 ?B (?C + (nc noisy - 4)) ?H ?W
            (\<lambda>b c. if c < ?C then get4 ?nl b c else get4 (channels_from 4 noisy) b (c - ?C)))"
    by (simp add: cat_channels_def channels_from_def cong: if_cong)
  also have "tab4 ?B (?C + (nc noisy - 4)) ?H ?W
            (\<lambda>b c. if c < ?C then get4 ?nl b c else get4 (channels_from 4 noisy) b (c - ?C)) = ?out"
    by (intro tab4_cong) (auto simp: get4_tab4 channels_from_def)
  finally have out: "cat_channels ?nl (channels_from 4 noisy) = Inr ?out" .
  show ?thesis
    unfolding compute_dream_and_update_latents_for_inpaint_def
    by (simp only: ga sum.case Let_def eps d0 delta scaled nl tg out simp_thms if_True)
qed


lemma sqrt_quarter: "sqrt (1 / 4) = 1 / 2"
  by (simp add: real_sqrt_divide)

lemma binop_Inl: "binop f x y = Inl e \<Longrightarrow> e = shape_error"
  by (auto simp: binop_def split: option.splits)

lemma binop_inplace_Inl: "binop_inplace f x y = Inl e \<Longrightarrow> e = shape_error"
  by (auto simp: binop_inplace_def dest: binop_Inl split: sum.splits if_splits)

lemma cat_channels_Inl: "cat_channels x y = Inl e \<Longrightarrow> \<exists>m. e = RuntimeError m"
  by (auto simp: cat_channels_def split: if_splits)

lemma dream_epsilon_Inl:
  assumes "prediction_type sch = ''epsilon''"
    and "index_all (alphas_cumprod sch) ts = Inr as"
    and "compute_dream_and_update_latents_for_inpaint unet sch ts noise noisy target ehs p = Inl e"
  shows "\<exists>m. e = RuntimeError m"
  using assms
  unfolding compute_dream_and_update_latents_for_inpaint_def gather_alphas_def
  by (auto simp: Let_def shape_error_def split: sum.splits
           dest!: binop_Inl binop_inplace_Inl cat_channels_Inl)

text \<open>
  Claim C3. When the lookup of the timesteps in the schedule succeeds, the function fails
  with NotImplementedError exactly when the prediction type is \<open>v_prediction\<close>, and with
  ValueError exactly when it is neither \<open>epsilon\<close> nor \<open>v_prediction\<close>; for \<open>epsilon\<close>,
  with tensors of matching shapes, it does not raise.
\<close>

theorem dream_prediction_type_errors:
  fixes unet :: "tensor4 \<Rightarrow> int list \<Rightarrow> 'h \<Rightarrow> tensor4"
  assumes idx: "index_all (alphas_cumprod sch) ts = Inr as"
  shows "(is_NotImplementedError
            (compute_dream_and_update_latents_for_inpaint unet sch ts noise noisy target ehs p)
          \<longleftrightarrow> prediction_type sch = ''v_prediction'') \<and>
         (is_ValueError
            (compute_dream_and_update_latents_for_inpaint unet sch ts noise noisy target ehs p)
          \<longleftrightarrow> prediction_type sch \<noteq> ''epsilon'' \<and> prediction_type sch \<noteq> ''v_prediction'') \<and>
         (prediction_type sch = ''epsilon'' \<and> length ts = nb noisy \<and>
          same_shape noise (channels_upto 4 noisy) \<and> same_shape (unet noisy ts ehs) noise \<and>
          same_shape target noise
          \<longrightarrow> \<not> raises
                (compute_dream_and_update_latents_for_inpaint unet sch ts noise noisy target ehs p))"
proof -
  let ?r = "compute_dream_and_update_latents_for_inpaint unet sch ts noise noisy target ehs p"
  have ga: "gather_alphas (alphas_cumprod sch) ts
            = Inr \<lparr> nb = length ts, nc = 1, nh = 1, nw = 1, elems = as \<rparr>"
    by (simp add: gather_alphas_def idx)
  consider (eps) "prediction_type sch = ''epsilon''"
    | (v) "prediction_type sch = ''v_prediction''"
    | (other) "prediction_type sch \<noteq> ''epsilon''" "prediction_type sch \<noteq> ''v_prediction''"
    by blast
  then show ?thesis
  proof cases
    case eps
    have no_nie: "\<not> is_NotImplementedError ?r" and no_ve: "\<not> is_ValueError ?r"
      using dream_epsilon_Inl [OF eps idx, of unet noise noisy target ehs p]
      by (auto simp: is_NotImplementedError_def is_ValueError_def split: sum.splits exn.splits)
    have "\<not> raises ?r"
      if "length ts = nb noisy" "same_shape noise (channels_upto 4 noisy)"
         "same_shape (unet noisy ts ehs) noise" "same_shape target noise"
      using dream_epsilon_result [where unet = unet and ehs = ehs and noise = noise
          and target = target and p = p, OF eps idx that]
      by (simp add: raises_def)
    with no_nie no_ve eps show ?thesis by simp
  next
    case v
    then have "?r = Inl (NotImplementedError ''DREAM has not been implemented for v-prediction'')"
      unfolding compute_dream_and_update_latents_for_inpaint_def
      by (simp add: ga Let_def)
    with v show ?thesis
      by (simp add: is_NotImplementedError_def is_ValueError_def)
  next
    case other
    then have "?r = Inl (ValueError (''Unknown prediction type '' @ prediction_type sch))"
      unfolding compute_dream_and_update_latents_for_inpaint_def
      by (simp add: ga Let_def)
    with other show ?thesis
      by (simp add: is_NotImplementedError_def is_ValueError_def)
  qed
qed


lemma fpow_positive_base: "0 < x \<Longrightarrow> fpow x p = x powr p"
  by (simp add: fpow_def)

text \<open>
  Claim C2. For the prediction type \<open>epsilon\<close>, with \<open>\<lambda> = sqrt (1 - \<alpha>)\<close> to the power
  \<open>p\<close> (the real power \<open>powr\<close>) and \<open>delta = \<lambda> * (noise - predicted_noise)\<close>: the returned
  noisy latents have the shape of the input, their first four channels are those of the
  input plus \<open>sqrt (1 - \<alpha>) * delta\<close>, their remaining (conditioning) channels are those of
  the input, and the returned target is the input target plus \<open>delta\<close>. Here \<open>\<alpha>\<close> is the
  schedule value of the batch entry's timestep, strictly below 1 as in every schedule, so
  that the base of the power is positive.
\<close>

theorem dream_epsilon_formula:
  fixes unet :: "tensor4 \<Rightarrow> int list \<Rightarrow> 'h \<Rightarrow> tensor4"
  assumes eps: "prediction_type sch = ''epsilon''"
    and idx: "index_all (alphas_cumprod sch) ts = Inr as"
    and pos: "\<forall>a\<in>set as. 0 \<le> a \<and> a < 1"
    and len: "length ts = nb noisy"
    and noise: "same_shape noise (channels_upto 4 noisy)"
    and pred: "same_shape (unet noisy ts ehs) noise"
    and target: "same_shape target noise"
  shows "\<exists>out tg.
      compute_dream_and_update_latents_for_inpaint unet sch ts noise noisy target ehs p
        = Inr (out, tg) \<and>
      same_shape out noisy \<and> same_shape tg target \<and>
      (\<forall>b<nb noisy. \<forall>c<nc noisy. \<forall>h<nh noisy. \<forall>w<nw noisy.
         get4 out b c h w =
           (if c < 4
            then get4 noisy b c h w +
                 sqrt (1 - as ! b) *
                   (sqrt (1 - as ! b) powr p *
                      (get4 noise b c h w - get4 (unet noisy ts ehs) b c h w))
            else get4 noisy b c h w)) \<and>
      (\<forall>b<nb target. \<forall>c<nc target. \<forall>h<nh target. \<forall>w<nw target.
         get4 tg b c h w =
           get4 target b c h w +
           sqrt (1 - as ! b) powr p *
             (get4 noise b c h w - get4 (unet noisy ts ehs) b c h w))"
proof -
  have sht: "nb target = nb noisy" "nc target = min 4 (nc noisy)"
            "nh target = nh noisy" "nw target = nw noisy"
    using target noise by (simp_all add: same_shape_def channels_upto_def)
  have cc: "min 4 (nc noisy) + (nc noisy - 4) = nc noisy" by simp
  have las: "length as = nb noisy" using index_all_length [OF idx] len by simp
  have lam: "fpow (sqrt (1 - as ! b)) p = sqrt (1 - as ! b) powr p" if "b < nb noisy" for b
  proof -
    have "as ! b \<in> set as" using that las by simp
    then have "as ! b < 1" using pos by blast
    then have "0 < sqrt (1 - as ! b)" by simp
    then show ?thesis by (rule fpow_positive_base)
  qed
  define out where "out = tab4 (nb noisy) (min 4 (nc noisy) + (nc noisy - 4)) (nh noisy) (nw noisy)
            (\<lambda>b c h w.
               if c < min 4 (nc noisy)
               then get4 noisy b c h w +
                    sqrt (1 - as ! b) *
                      ((get4 noise b c h w - get4 (unet noisy ts ehs) b c h w) *
                        fpow (sqrt (1 - as ! b)) p)
               else get4 noisy b (c - min 4 (nc noisy) + 4) h w)"
  define tg where "tg = tab4 (nb noisy) (min 4 (nc noisy)) (nh noisy) (nw noisy)
            (\<lambda>b c h w.
               get4 target b c h w +
               (get4 noise b c h w - get4 (unet noisy ts ehs) b c h w) *
                 fpow (sqrt (1 - as ! b)) p)"
  have r: "compute_dream_and_update_latents_for_inpaint unet sch ts noise noisy target ehs p
           = Inr (out, tg)"
    unfolding out_def tg_def
    by (rule dream_epsilon_result [where unet = unet and ehs = ehs and noise = noise
             and target = target and p = p, OF eps idx len noise pred target])
  have s1: "same_shape out noisy" by (simp add: out_def same_shape_def)
  have s2: "same_shape tg target" by (simp add: tg_def same_shape_def sht)
  have e1: "get4 out b c h w =
           (if c < 4
            then get4 noisy b c h w +
                 sqrt (1 - as ! b) *
                   (sqrt (1 - as ! b) powr p *
                      (get4 noise b c h w - get4 (unet noisy ts ehs) b c h w))
            else get4 noisy b c h w)"
    if "b < nb noisy" "c < nc noisy" "h < nh noisy" "w < nw noisy" for b c h w
    using that unfolding out_def cc by (simp add: get4_tab4 lam mult.commute)
  have e2: "get4 tg b c h w =
           get4 target b c h w +
           sqrt (1 - as ! b) powr p *
             (get4 noise b c h w - get4 (unet noisy ts ehs) b c h w)"
    if "b < nb target" "c < nc target" "h < nh target" "w < nw target" for b c h w
    using that unfolding tg_def sht by (simp add: get4_tab4 lam mult.commute)
  from r s1 s2 e1 e2 show ?thesis by blast
qed


lemma upt_4: "[0..<4] = [0, 1, 2, 3]" and upt_5: "[0..<5] = [0, 1, 2, 3, 4]"
  by (simp_all add: upt_rec)

text \<open>
  Claim C1, as stated, fails: with \<^verbatim>\<open>dream_detail_preservation = 0\<close> the weight is
  \<open>sqrt (1 - \<alpha>) ** 0 = 1\<close>, not 0. With \<open>\<alpha> = 3/4\<close>, noise 1 and predicted noise 0
  (all exact in float32), the latents 0 come back as 1/2 and the target 0 as 1.
\<close>

theorem dream_zero_exponent_counterexample:
  "compute_dream_and_update_latents_for_inpaint
     (const_unet \<lparr> nb = 1, nc = 4, nh = 1, nw = 1, elems = [0, 0, 0, 0] \<rparr>)
     \<lparr> alphas_cumprod = [3 / 4], prediction_type = ''epsilon'' \<rparr>
     [0]
     \<lparr> nb = 1, nc = 4, nh = 1, nw = 1, elems = [1, 1, 1, 1] \<rparr>
     \<lparr> nb = 1, nc = 4, nh = 1, nw = 1, elems = [0, 0, 0, 0] \<rparr>
     \<lparr> nb = 1, nc = 4, nh = 1, nw = 1, elems = [0, 0, 0, 0] \<rparr>
     ()
     0
   = Inr (\<lparr> nb = 1, nc = 4, nh = 1, nw = 1, elems = [1 / 2, 1 / 2, 1 / 2, 1 / 2] \<rparr>,
          \<lparr> nb = 1, nc = 4, nh = 1, nw = 1, elems = [1, 1, 1, 1] \<rparr>)"
proof -
  have "compute_dream_and_update_latents_for_inpaint
     (const_unet \<lparr> nb = 1, nc = 4, nh = 1, nw = 1, elems = [0, 0, 0, 0] \<rparr>)
     \<lparr> alphas_cumprod = [3 / 4], prediction_type = ''epsilon'' \<rparr>
     [0]
     \<lparr> nb = 1, nc = 4, nh = 1, nw = 1, elems = [1, 1, 1, 1] \<rparr>
     \<lparr> nb = 1, nc = 4, nh = 1, nw = 1, elems = [0, 0, 0, 0] \<rparr>
     \<lparr> nb = 1, nc = 4, nh = 1, nw = 1, elems = [0, 0, 0, 0] \<rparr>
     ()
     0 = Inr (\<lparr> nb = 1, nc = 4, nh = 1, nw = 1, elems = [1 / 2, 1 / 2, 1 / 2, 1 / 2] \<rparr>,
          \<lparr> nb = 1, nc = 4, nh = 1, nw = 1, elems = [1, 1, 1, 1] \<rparr>)"
    by (subst dream_epsilon_result [where as = "[3 / 4]"])
       (simp_all add: index1_def same_shape_def channels_upto_def const_unet_def fpow_def
          sqrt_quarter get4_def tab4_def upt_4)
  then show ?thesis .
qed


lemma sqrt_sixteenth: "sqrt (1 / 16) = 1 / 4"
  by (rule real_sqrt_unique) (simp_all add: power2_eq_square)

theorem dream_epsilon_formula_witness:
  "index_all (alphas_cumprod \<lparr> alphas_cumprod = [3 / 4, 15 / 16], prediction_type = ''epsilon'' \<rparr>)
     [0] = Inr [3 / 4] \<and>
   index_all (alphas_cumprod \<lparr> alphas_cumprod = [3 / 4, 15 / 16], prediction_type = ''epsilon'' \<rparr>)
     [1] = Inr [15 / 16] \<and>
   (\<exists>out tg.
      compute_dream_and_update_latents_for_inpaint
        (const_unet \<lparr> nb = 1, nc = 4, nh = 1, nw = 1, elems = [0, 1, 0, 1] \<rparr>)
        \<lparr> alphas_cumprod = [3 / 4, 15 / 16], prediction_type = ''epsilon'' \<rparr>
        [0]
        \<lparr> nb = 1, nc = 4, nh = 1, nw = 1, elems = [1, 2, 3, 4] \<rparr>
        \<lparr> nb = 1, nc = 5, nh = 1, nw = 1, elems = [10, 20, 30, 40, 50] \<rparr>
        \<lparr> nb = 1, nc = 4, nh = 1, nw = 1, elems = [5, 6, 7, 8] \<rparr>
        ()
        2
      = Inr (out, tg) \<and>
      get4 out 0 2 0 0 = 30 + 3 / 8 \<and> get4 out 0 4 0 0 = 50 \<and> get4 tg 0 3 0 0 = 8 + 3 / 4) \<and>
   (\<exists>out tg.
      compute_dream_and_update_latents_for_inpaint
        (const_unet \<lparr> nb = 1, nc = 4, nh = 1, nw = 1, elems = [0, 1, 0, 1] \<rparr>)
        \<lparr> alphas_cumprod = [3 / 4, 15 / 16], prediction_type = ''epsilon'' \<rparr>
        [1]
        \<lparr> nb = 1, nc = 4, nh = 1, nw = 1, elems = [1, 2, 3, 4] \<rparr>
        \<lparr> nb = 1, nc = 5, nh = 1, nw = 1, elems = [10, 20, 30, 40, 50] \<rparr>
        \<lparr> nb = 1, nc = 4, nh = 1, nw = 1, elems = [5, 6, 7, 8] \<rparr>
        ()
        (1 / 2)
      = Inr (out, tg) \<and>
      get4 out 0 2 0 0 = 30 + 3 / 8 \<and> get4 out 0 4 0 0 = 50 \<and> get4 tg 0 3 0 0 = 8 + 3 / 2)"
proof -
  let ?sch = "\<lparr> alphas_cumprod = [3 / 4, 15 / 16], prediction_type = ''epsilon'' \<rparr>"
  let ?pred = "\<lparr> nb = 1, nc = 4, nh = 1, nw = 1, elems = [0, 1, 0, 1] \<rparr>"
  let ?noise = "\<lparr> nb = 1, nc = 4, nh = 1, nw = 1, elems = [1, 2, 3, 4] \<rparr>"
  let ?noisy = "\<lparr> nb = 1, nc = 5, nh = 1, nw = 1, elems = [10, 20, 30, 40, 50] \<rparr>"
  let ?target = "\<lparr> nb = 1, nc = 4, nh = 1, nw = 1, elems = [5, 6, 7, 8] \<rparr>"
  have h1: "prediction_type ?sch = ''epsilon''" by simp
  have i0: "index_all (alphas_cumprod ?sch) [0] = Inr [3 / 4]" by (simp add: index1_def)
  have i1: "index_all (alphas_cumprod ?sch) [1] = Inr [15 / 16]" by (simp add: index1_def)
  have p0: "\<forall>a\<in>set [3 / 4 :: real]. 0 \<le> a \<and> a < 1" by simp
  have p1: "\<forall>a\<in>set [15 / 16 :: real]. 0 \<le> a \<and> a < 1" by simp
  have l0: "length [0 :: int] = nb ?noisy" and l1: "length [1 :: int] = nb ?noisy" by simp_all
  have h5: "same_shape ?noise (channels_upto 4 ?noisy)"
    by (simp add: same_shape_def channels_upto_def)
  have h6: "same_shape (const_unet ?pred ?noisy ts ()) ?noise" for ts :: "int list"
    by (simp add: same_shape_def const_unet_def)
  have h7: "same_shape ?target ?noise" by (simp add: same_shape_def)
  have pw2: "(1 / 2 :: real) powr 2 = 1 / 4" by (simp add: power2_eq_square)
  have pwh: "(1 / 4 :: real) powr (1 / 2) = 1 / 2"
    using powr_half_sqrt [of "1 / 4"] by (simp add: sqrt_quarter)
  from dream_epsilon_formula [where unet = "const_unet ?pred" and ehs = "()" and p = 2,
        OF h1 i0 p0 l0 h5 h6 h7]
  obtain out tg where
    r: "compute_dream_and_update_latents_for_inpaint (const_unet ?pred) ?sch [0] ?noise ?noisy
          ?target () 2 = Inr (out, tg)"
    and e1: "\<forall>b<nb ?noisy. \<forall>c<nc ?noisy. \<forall>h<nh ?noisy. \<forall>w<nw ?noisy.
         get4 out b c h w =
           (if c < 4
            then get4 ?noisy b c h w +
                 sqrt (1 - [3 / 4] ! b) *
                   (sqrt (1 - [3 / 4] ! b) powr 2 *
                      (get4 ?noise b c h w - get4 (const_unet ?pred ?noisy [0] ()) b c h w))
            else get4 ?noisy b c h w)"
    and e2: "\<forall>b<nb ?target. \<forall>c<nc ?target. \<forall>h<nh ?target. \<forall>w<nw ?target.
         get4 tg b c h w =
           get4 ?target b c h w +
           sqrt (1 - [3 / 4] ! b) powr 2 *
             (get4 ?noise b c h w - get4 (const_unet ?pred ?noisy [0] ()) b c h w)"
    by blast
  have a: "get4 out 0 2 0 0 = 30 + 3 / 8"
    using e1 [rule_format, of 0 2 0 0]
    by (simp add: get4_def const_unet_def sqrt_quarter pw2)
  have b: "get4 out 0 4 0 0 = 50"
    using e1 [rule_format, of 0 4 0 0] by (simp add: get4_def)
  have c: "get4 tg 0 3 0 0 = 8 + 3 / 4"
    using e2 [rule_format, of 0 3 0 0]
    by (simp add: get4_def const_unet_def sqrt_quarter pw2)
  from dream_epsilon_formula [where unet = "const_unet ?pred" and ehs = "()" and p = "1 / 2",
        OF h1 i1 p1 l1 h5 h6 h7]
  obtain out' tg' where
    r': "compute_dream_and_update_latents_for_inpaint (const_unet ?pred) ?sch [1] ?noise ?noisy
          ?target () (1 / 2) = Inr (out', tg')"
    and e1': "\<forall>b<nb ?noisy. \<forall>c<nc ?noisy. \<forall>h<nh ?noisy. \<forall>w<nw ?noisy.
         get4 out' b c h w =
           (if c < 4
            then get4 ?noisy b c h w +
                 sqrt (1 - [15 / 16] ! b) *
                   (sqrt (1 - [15 / 16] ! b) powr (1 / 2) *
                      (get4 ?noise b c h w - get4 (const_unet ?pred ?noisy [1] ()) b c h w))
            else get4 ?noisy b c h w)"
    and e2': "\<forall>b<nb ?target. \<forall>c<nc ?target. \<forall>h<nh ?target. \<forall>w<nw ?target.
         get4 tg' b c h w =
           get4 ?target b c h w +
           sqrt (1 - [15 / 16] ! b) powr (1 / 2) *
             (get4 ?noise b c h w - get4 (const_unet ?pred ?noisy [1] ()) b c h w)"
    by blast
  have a': "get4 out' 0 2 0 0 = 30 + 3 / 8"
    using e1' [rule_format, of 0 2 0 0]
    by (simp add: get4_def const_unet_def sqrt_sixteenth pwh)
  have b': "get4 out' 0 4 0 0 = 50"
    using e1' [rule_format, of 0 4 0 0] by (simp add: get4_def)
  have c': "get4 tg' 0 3 0 0 = 8 + 3 / 2"
    using e2' [rule_format, of 0 3 0 0]
    by (simp add: get4_def const_unet_def sqrt_sixteenth pwh)
  from i0 i1 r a b c r' a' b' c' show ?thesis by blast
qed

text \<open>
  Claim C1, amended. With \<^verbatim>\<open>dream_detail_preservation = 0\<close> the weight \<open>\<lambda>\<close> is 1 and
  \<open>delta = noise - predicted_noise\<close>: the first four channels of the returned noisy latents
  are the input's plus \<open>sqrt (1 - \<alpha>) * (noise - predicted_noise)\<close>, the conditioning
  channels are the input's, and the returned target is the input's plus
  \<open>noise - predicted_noise\<close>. The inputs come back unchanged only where the network predicts
  the noise exactly.
\<close>

theorem dream_zero_exponent:
  fixes unet :: "tensor4 \<Rightarrow> int list \<Rightarrow> 'h \<Rightarrow> tensor4"
  assumes eps: "prediction_type sch = ''epsilon''"
    and idx: "index_all (alphas_cumprod sch) ts = Inr as"
    and pos: "\<forall>a\<in>set as. 0 \<le> a \<and> a < 1"
    and len: "length ts = nb noisy"
    and noise: "same_shape noise (channels_upto 4 noisy)"
    and pred: "same_shape (unet noisy ts ehs) noise"
    and target: "same_shape target noise"
  shows "\<exists>out tg.
      compute_dream_and_update_latents_for_inpaint unet sch ts noise noisy target ehs 0
        = Inr (out, tg) \<and>
      (\<forall>b<nb noisy. \<forall>c<nc noisy. \<forall>h<nh noisy. \<forall>w<nw noisy.
         get4 out b c h w =
           (if c < 4
            then get4 noisy b c h w +
                 sqrt (1 - as ! b) *
                   (get4 noise b c h w - get4 (unet noisy ts ehs) b c h w)
            else get4 noisy b c h w)) \<and>
      (\<forall>b<nb target. \<forall>c<nc target. \<forall>h<nh target. \<forall>w<nw target.
         get4 tg b c h w =
           get4 target b c h w +
           (get4 noise b c h w - get4 (unet noisy ts ehs) b c h w))"
proof -
  have sht: "nb target = nb noisy" "nc target = min 4 (nc noisy)"
            "nh target = nh noisy" "nw target = nw noisy"
    using target noise by (simp_all add: same_shape_def channels_upto_def)
  have cc: "min 4 (nc noisy) + (nc noisy - 4) = nc noisy" by simp
  define out where "out = tab4 (nb noisy) (min 4 (nc noisy) + (nc noisy - 4)) (nh noisy) (nw noisy)
            (\<lambda>b c h w.
               if c < min 4 (nc noisy)
               then get4 noisy b c h w +
                    sqrt (1 - as ! b) *
                      ((get4 noise b c h w - get4 (unet noisy ts ehs) b c h w) *
                        fpow (sqrt (1 - as ! b)) 0)
               else get4 noisy b (c - min 4 (nc noisy) + 4) h w)"
  define tg where "tg = tab4 (nb noisy) (min 4 (nc noisy)) (nh noisy) (nw noisy)
            (\<lambda>b c h w.
               get4 target b c h w +
               (get4 noise b c h w - get4 (unet noisy ts ehs) b c h w) *
                 fpow (sqrt (1 - as ! b)) 0)"
  have r: "compute_dream_and_update_latents_for_inpaint unet sch ts noise noisy target ehs 0
           = Inr (out, tg)"
    unfolding out_def tg_def
    by (rule dream_epsilon_result [where unet = unet and ehs = ehs and noise = noise
             and target = target and p = 0, OF eps idx len noise pred target])
  have e1: "get4 out b c h w =
           (if c < 4
            then get4 noisy b c h w +
                 sqrt (1 - as ! b) *
                   (get4 noise b c h w - get4 (unet noisy ts ehs) b c h w)
            else get4 noisy b c h w)"
    if "b < nb noisy" "c < nc noisy" "h < nh noisy" "w < nw noisy" for b c h w
    using that unfolding out_def cc by (simp add: get4_tab4 fpow_def)
  have e2: "get4 tg b c h w =
           get4 target b c h w +
           (get4 noise b c h w - get4 (unet noisy ts ehs) b c h w)"
    if "b < nb target" "c < nc target" "h < nh target" "w < nw target" for b c h w
    using that unfolding tg_def sht by (simp add: get4_tab4 fpow_def)
  from r e1 e2 show ?thesis by blast
qed


theorem dream_zero_exponent_witness:
  "index_all (alphas_cumprod \<lparr> alphas_cumprod = [3 / 4], prediction_type = ''epsilon'' \<rparr>) [0]
     = Inr [3 / 4] \<and>
   (\<exists>out tg.
      compute_dream_and_update_latents_for_inpaint
        (const_unet \<lparr> nb = 1, nc = 4, nh = 1, nw = 1, elems = [0, 0, 0, 0] \<rparr>)
        \<lparr> alphas_cumprod = [3 / 4], prediction_type = ''epsilon'' \<rparr>
        [0]
        \<lparr> nb = 1, nc = 4, nh = 1, nw = 1, elems = [1, 1, 1, 1] \<rparr>
        \<lparr> nb = 1, nc = 4, nh = 1, nw = 1, elems = [0, 0, 0, 0] \<rparr>
        \<lparr> nb = 1, nc = 4, nh = 1, nw = 1, elems = [0, 0, 0, 0] \<rparr>
        ()
        0
      = Inr (out, tg) \<and>
      get4 out 0 0 0 0 = 1 / 2 \<and> get4 tg 0 0 0 0 = 1)"
proof -
  let ?sch = "\<lparr> alphas_cumprod = [3 / 4], prediction_type = ''epsilon'' \<rparr>"
  let ?pred = "\<lparr> nb = 1, nc = 4, nh = 1, nw = 1, elems = [0, 0, 0, 0] \<rparr>"
  let ?noise = "\<lparr> nb = 1, nc = 4, nh = 1, nw = 1, elems = [1, 1, 1, 1] \<rparr>"
  have h1: "prediction_type ?sch = ''epsilon''" by simp
  have h2: "index_all (alphas_cumprod ?sch) [0] = Inr [3 / 4]" by (simp add: index1_def)
  have h3: "\<forall>a\<in>set [3 / 4 :: real]. 0 \<le> a \<and> a < 1" by simp
  have h4: "length [0 :: int] = nb ?pred" by simp
  have h5: "same_shape ?noise (channels_upto 4 ?pred)"
    by (simp add: same_shape_def channels_upto_def)
  have h6: "same_shape (const_unet ?pred ?pred [0] ()) ?noise"
    by (simp add: same_shape_def const_unet_def)
  have h7: "same_shape ?pred ?noise" by (simp add: same_shape_def)
  from dream_zero_exponent [where unet = "const_unet ?pred" and ehs = "()",
        OF h1 h2 h3 h4 h5 h6 h7]
  obtain out tg where
    r: "compute_dream_and_update_latents_for_inpaint (const_unet ?pred) ?sch [0] ?noise ?pred
          ?pred () 0 = Inr (out, tg)"
    and e1: "\<forall>b<nb ?pred. \<forall>c<nc ?pred. \<forall>h<nh ?pred. \<forall>w<nw ?pred.
         get4 out b c h w =
           (if c < 4
            then get4 ?pred b c h w +
                 sqrt (1 - [3 / 4] ! b) *
                   (get4 ?noise b c h w - get4 (const_unet ?pred ?pred [0] ()) b c h w)
            else get4 ?pred b c h w)"
    and e2: "\<forall>b<nb ?pred. \<forall>c<nc ?pred. \<forall>h<nh ?pred. \<forall>w<nw ?pred.
         get4 tg b c h w =
           get4 ?pred b c h w +
           (get4 ?noise b c h w - get4 (const_unet ?pred ?pred [0] ()) b c h w)"
    by blast
  have a: "get4 out 0 0 0 0 = 1 / 2"
    using e1 [rule_format, of 0 0 0 0]
    by (simp add: get4_def const_unet_def sqrt_quarter)
  have b: "get4 tg 0 0 0 0 = 1"
    using e2 [rule_format, of 0 0 0 0] by (simp add: get4_def const_unet_def)
  from h2 r a b show ?thesis by blast
qed

theorem dream_prediction_type_errors_witness:
  "is_NotImplementedError
     (compute_dream_and_update_latents_for_inpaint
        (const_unet \<lparr> nb = 1, nc = 4, nh = 1, nw = 1, elems = [0, 0, 0, 0] \<rparr>)
        \<lparr> alphas_cumprod = [3 / 4], prediction_type = ''v_prediction'' \<rparr>
        [0]
        \<lparr> nb = 1, nc = 4, nh = 1, nw = 1, elems = [1, 1, 1, 1] \<rparr>
        \<lparr> nb = 1, nc = 4, nh = 1, nw = 1, elems = [0, 0, 0, 0] \<rparr>
        \<lparr> nb = 1, nc = 4, nh = 1, nw = 1, elems = [0, 0, 0, 0] \<rparr>
        () 1) \<and>
   is_ValueError
     (compute_dream_and_update_latents_for_inpaint
        (const_unet \<lparr> nb = 1, nc = 4, nh = 1, nw = 1, elems = [0, 0, 0, 0] \<rparr>)
        \<lparr> alphas_cumprod = [3 / 4], prediction_type = ''sample'' \<rparr>
        [0]
        \<lparr> nb = 1, nc = 4, nh = 1, nw = 1, elems = [1, 1, 1, 1] \<rparr>
        \<lparr> nb = 1, nc = 4, nh = 1, nw = 1, elems = [0, 0, 0, 0] \<rparr>
        \<lparr> nb = 1, nc = 4, nh = 1, nw = 1, elems = [0, 0, 0, 0] \<rparr>
        () 1) \<and>
   \<not> raises
     (compute_dream_and_update_latents_for_inpaint
        (const_unet \<lparr> nb = 1, nc = 4, nh = 1, nw = 1, elems = [0, 0, 0, 0] \<rparr>)
        \<lparr> alphas_cumprod = [3 / 4], prediction_type = ''epsilon'' \<rparr>
        [0]
        \<lparr> nb = 1, nc = 4, nh = 1, nw = 1, elems = [1, 1, 1, 1] \<rparr>
        \<lparr> nb = 1, nc = 4, nh = 1, nw = 1, elems = [0, 0, 0, 0] \<rparr>
        \<lparr> nb = 1, nc = 4, nh = 1, nw = 1, elems = [0, 0, 0, 0] \<rparr>
        () 1)"
proof -
  let ?pred = "\<lparr> nb = 1, nc = 4, nh = 1, nw = 1, elems = [0, 0, 0, 0] \<rparr>"
  let ?noise = "\<lparr> nb = 1, nc = 4, nh = 1, nw = 1, elems = [1, 1, 1, 1] \<rparr>"
  have h: "index_all (alphas_cumprod \<lparr> alphas_cumprod = [3 / 4], prediction_type = pt \<rparr>) [0]
             = Inr [3 / 4]" for pt
    by (simp add: index1_def)
  have sh: "same_shape ?noise (channels_upto 4 ?pred)"
       "same_shape (const_unet ?pred ?pred [0] ()) ?noise" "same_shape ?pred ?noise"
    by (simp_all add: same_shape_def channels_upto_def const_unet_def)
  show ?thesis
    using dream_prediction_type_errors [where unet = "const_unet ?pred" and ehs = "()"
            and noise = ?noise and noisy = ?pred and target = ?pred and p = 1,
            OF h [of "''v_prediction''"]]
          dream_prediction_type_errors [where unet = "const_unet ?pred" and ehs = "()"
            and noise = ?noise and noisy = ?pred and target = ?pred and p = 1,
            OF h [of "''sample''"]]
          dream_prediction_type_errors [where unet = "const_unet ?pred" and ehs = "()"
            and noise = ?noise and noisy = ?pred and target = ?pred and p = 1,
            OF h [of "''epsilon''"]]
          sh
    by simp
qed


section \<open>Properties of prepare_image\<close>

lemma in_set_elems_tab4:
  assumes "x \<in> set (elems (tab4 B C H W f))"
  shows "\<exists>b c h w. b < B \<and> c < C \<and> h < H \<and> w < W \<and> x = f b c h w"
proof -
  from assms obtain b c h w
    where "b < B" "c < C" "h < H" "w < W" "x = f b c h w"
    unfolding tab4_def by auto
  then show ?thesis by (intro exI [of _ b] exI [of _ c] exI [of _ h] exI [of _ w]) simp
qed

lemma flat_index_tab4:
  assumes "b < B" "c < C" "h < H" "w < W"
  shows "elems (tab4 B C H W f) ! (((b * C + c) * H + h) * W + w) = f b c h w"
  using get4_tab4 [OF assms, of f] by (simp add: get4_def)

lemma mapE_rgb:
  "list_all is_PIL imgs \<Longrightarrow> mapE rgb_batch1 imgs = Inr (map (\<lambda>i. unsqueeze0 (pixels_of i)) imgs)"
proof (induction imgs)
  case Nil
  then show ?case by simp
next
  case (Cons i imgs)
  then show ?case by (cases i) auto
qed

lemma mapE_nd:
  "list_all (\<lambda>i. \<not> is_PIL i) imgs \<Longrightarrow> \<forall>i\<in>set imgs. shape (pixels_of i) \<noteq> [] \<Longrightarrow>
   mapE nd_batch1 imgs = Inr (map (\<lambda>i. unsqueeze0 (pixels_of i)) imgs)"
proof (induction imgs)
  case Nil
  then show ?case by simp
next
  case (Cons i imgs)
  then show ?case by (cases i) auto
qed

lemma sum_list_ones: "sum_list (map (\<lambda>x. Suc 0) xs) = length xs"
  by (induction xs) auto

lemma concatenate0_batch:
  assumes "imgs \<noteq> []" "\<forall>i\<in>set imgs. shape (pixels_of i) = s"
  shows "concatenate0 (map (\<lambda>i. unsqueeze0 (pixels_of i)) imgs)
         = Inr \<lparr> shape = length imgs # s, flat = concat (map (\<lambda>i. flat (pixels_of i)) imgs) \<rparr>"
proof -
  obtain i rest where imgs: "imgs = i # rest" using assms(1) by (cases imgs) auto
  have all: "list_all (\<lambda>b. shape b \<noteq> [] \<and> tl (shape b) = s)
               (map (\<lambda>i. unsqueeze0 (pixels_of i)) imgs)"
    using assms(2) by (simp add: list_all_iff unsqueeze0_def)
  have hd1: "map (\<lambda>b. hd (shape b)) (map (\<lambda>i. unsqueeze0 (pixels_of i)) imgs)
             = map (\<lambda>x. Suc 0) imgs"
    by (simp add: unsqueeze0_def)
  have fl: "map flat (map (\<lambda>i. unsqueeze0 (pixels_of i)) imgs)
            = map (\<lambda>i. flat (pixels_of i)) imgs"
    by (simp add: unsqueeze0_def)
  have s: "tl (shape (unsqueeze0 (pixels_of i))) = s"
    using assms(2) imgs by (simp add: unsqueeze0_def)
  show ?thesis
    using all hd1 fl s sum_list_ones [of imgs]
    unfolding concatenate0_def imgs
    by (simp add: o_def unsqueeze0_def)
qed


lemma index3_bound:
  assumes "h < H" "w < W" "c < (C::nat)"
  shows "(h * W + w) * C + c < H * W * C"
proof -
  have "h * W + w < h * W + W" using assms by simp
  also have "\<dots> = Suc h * W" by simp
  also have "\<dots> \<le> H * W" using assms by (intro mult_le_mono1) simp
  finally have hw: "Suc (h * W + w) \<le> H * W" by simp
  have "(h * W + w) * C + c < (h * W + w) * C + C" using assms by simp
  also have "\<dots> = Suc (h * W + w) * C" by simp
  also have "\<dots> \<le> (H * W) * C" using hw by (intro mult_le_mono1)
  finally show ?thesis .
qed

lemma stacked_pixel:
  assumes "\<forall>i\<in>set imgs. shape (pixels_of i) = [H, W, C] \<and> wf_ndarr (pixels_of i)"
    and "n < length imgs" "h < H" "w < W" "c < C"
  shows "concat (map (\<lambda>i. flat (pixels_of i)) imgs) ! (((n * H + h) * W + w) * C + c)
         = flat (pixels_of (imgs ! n)) ! ((h * W + w) * C + c)"
proof -
  have len: "\<forall>x\<in>set (map (\<lambda>i. flat (pixels_of i)) imgs). length x = H * W * C"
    using assms(1) by (auto simp: wf_ndarr_def)
  have idx: "((n * H + h) * W + w) * C + c = n * (H * W * C) + ((h * W + w) * C + c)"
    by (simp add: algebra_simps)
  show ?thesis
    unfolding idx
    using nth_concat_rect [OF len, of n "(h * W + w) * C + c"] assms(2)
      index3_bound [OF assms(3-5)]
    by simp
qed

lemma prepare_image_list_result:
  assumes ty: "same_type_items imgs" and ne: "imgs \<noteq> []"
    and sh: "\<forall>i\<in>set imgs. shape (pixels_of i) = [H, W, C] \<and> wf_ndarr (pixels_of i)"
  shows "prepare_image_list imgs =
     Inr \<lparr> shape = [length imgs, C, H, W],
           flat = map (\<lambda>v. v / 127.5 - 1.0)
                    (elems (tab4 (length imgs) C H W
                       (\<lambda>n c h w. flat (pixels_of (imgs ! n)) ! ((h * W + w) * C + c)))) \<rparr>"
proof -
  let ?stacked = "\<lparr> shape = length imgs # [H, W, C],
                     flat = concat (map (\<lambda>i. flat (pixels_of i)) imgs) \<rparr>"
  obtain first rest where imgs: "imgs = first # rest" using ne by (cases imgs) auto
  have sh': "\<forall>i\<in>set imgs. shape (pixels_of i) = [H, W, C]" using sh by simp
  have cat: "concatenate0 (map (\<lambda>i. unsqueeze0 (pixels_of i)) imgs) = Inr ?stacked"
    by (rule concatenate0_batch [OF ne sh'])
  have stack: "(case first of
                   PIL p \<Rightarrow> (case mapE rgb_batch1 imgs of
                               Inl e \<Rightarrow> Inl e | Inr arrays \<Rightarrow> concatenate0 arrays)
                 | Nd a \<Rightarrow> (case mapE nd_batch1 imgs of
                               Inl e \<Rightarrow> Inl e | Inr arrays \<Rightarrow> concatenate0 arrays))
               = Inr ?stacked"
  proof (cases first)
    case (PIL p)
    then have "list_all is_PIL imgs" using ty imgs by (auto simp: same_type_items_def)
    then show ?thesis using PIL cat by (simp add: mapE_rgb)
  next
    case (Nd a)
    then have "list_all (\<lambda>i. \<not> is_PIL i) imgs" using ty imgs by (auto simp: same_type_items_def)
    moreover have "\<forall>i\<in>set imgs. shape (pixels_of i) \<noteq> []" using sh' by simp
    ultimately show ?thesis using Nd cat by (simp add: mapE_nd)
  qed
  have tr: "transpose_0312 ?stacked =
     Inr \<lparr> shape = [length imgs, C, H, W],
           flat = elems (tab4 (length imgs) C H W
                    (\<lambda>n c h w. flat (pixels_of (imgs ! n)) ! ((h * W + w) * C + c))) \<rparr>"
  proof -
    have "tab4 (length imgs) C H W
            (\<lambda>n c h w. concat (map (\<lambda>i. flat (pixels_of i)) imgs) ! (((n * H + h) * W + w) * C + c))
        = tab4 (length imgs) C H W
            (\<lambda>n c h w. flat (pixels_of (imgs ! n)) ! ((h * W + w) * C + c))"
      by (intro tab4_cong stacked_pixel [OF sh])
    then show ?thesis by (simp add: transpose_0312_def)
  qed
  show ?thesis
    unfolding prepare_image_list_def imgs [symmetric]
    by (simp only: imgs list.case stack [unfolded imgs] tr [unfolded imgs] sum.case
          scale_pixels_def ndarr.simps)
qed


text \<open>
  Claim C6, as stated, fails for a tensor argument: the tensor branch only adds the batch
  axis and casts; it neither reorders the axes nor scales. A 3-D tensor holding 255, 0 and
  128 comes back with these same values, not with 1, -1 and about 0.004.
\<close>

theorem prepare_image_tensor_counterexample:
  "prepare_image (ImageTensor \<lparr> shape = [3, 1, 1], flat = [255, 0, 128] \<rparr>)
   = Inr \<lparr> shape = [1, 3, 1, 1], flat = [255, 0, 128] \<rparr>"
  by (simp add: unsqueeze0_def)

text \<open>
  Claim C6, amended. For a list of PIL images, or of ndarrays, that all have the
  channel-last shape (H, W, C) and pixel values in [0, 255], \<^verbatim>\<open>prepare_image\<close> returns a
  tensor of shape (N, C, H, W) whose element [n, c, h, w] is pixel [h, w, c] of image n,
  divided by 127.5, minus 1, so every element lies in [-1, 1]; a single image is the
  list of that one image. For a tensor argument the function returns the tensor's values
  as they are, with a leading batch axis added when the tensor has three axes.
\<close>

theorem prepare_image_scaling:
  "(same_type_items imgs \<and> imgs \<noteq> [] \<and>
    (\<forall>i\<in>set imgs. shape (pixels_of i) = [H, W, C] \<and> wf_ndarr (pixels_of i) \<and>
                    (\<forall>v\<in>set (flat (pixels_of i)). 0 \<le> v \<and> v \<le> 255))
    \<longrightarrow> (\<exists>t. prepare_image (ImageList imgs) = Inr t \<and>
             shape t = [length imgs, C, H, W] \<and> wf_ndarr t \<and>
             (\<forall>n<length imgs. \<forall>c<C. \<forall>h<H. \<forall>w<W.
                flat t ! (((n * C + c) * H + h) * W + w)
                = flat (pixels_of (imgs ! n)) ! ((h * W + w) * C + c) / 127.5 - 1.0) \<and>
             (\<forall>x\<in>set (flat t). - 1 \<le> x \<and> x \<le> 1))) \<and>
   prepare_image (ImageItem img) = prepare_image (ImageList [img]) \<and>
   prepare_image (ImageTensor a)
     = Inr (if length (shape a) = 3 then a\<lparr>shape := 1 # shape a\<rparr> else a)"
proof (intro conjI impI)
  assume a: "same_type_items imgs \<and> imgs \<noteq> [] \<and>
    (\<forall>i\<in>set imgs. shape (pixels_of i) = [H, W, C] \<and> wf_ndarr (pixels_of i) \<and>
                    (\<forall>v\<in>set (flat (pixels_of i)). 0 \<le> v \<and> v \<le> 255))"
  let ?N = "length imgs"
  let ?f = "\<lambda>n c h w. flat (pixels_of (imgs ! n)) ! ((h * W + w) * C + c)"
  define t where "t = \<lparr> shape = [?N, C, H, W],
                         flat = map (\<lambda>v. v / 127.5 - 1.0) (elems (tab4 ?N C H W ?f)) \<rparr>"
  have sh: "\<forall>i\<in>set imgs. shape (pixels_of i) = [H, W, C] \<and> wf_ndarr (pixels_of i)"
    using a by simp
  have r: "prepare_image (ImageList imgs) = Inr t"
    unfolding t_def using a prepare_image_list_result [OF _ _ sh] by simp
  have s: "shape t = [?N, C, H, W]" by (simp add: t_def)
  have wf: "wf_ndarr t"
    by (simp add: t_def wf_ndarr_def length_elems_tab4)
  have e: "flat t ! (((n * C + c) * H + h) * W + w) = ?f n c h w / 127.5 - 1.0"
    if "n < ?N" "c < C" "h < H" "w < W" for n c h w
  proof -
    have "((n * C + c) * H + h) * W + w < length (elems (tab4 ?N C H W ?f))"
    proof -
      have "(c * H + h) * W + w < C * H * W" using index3_bound [of c C h H w W] that by simp
      moreover have "((n * C + c) * H + h) * W + w = n * (C * H * W) + ((c * H + h) * W + w)"
        by (simp add: algebra_simps)
      moreover have "n * (C * H * W) + C * H * W \<le> ?N * (C * H * W)"
        using that(1) mult_le_mono1 [of "Suc n" ?N "C * H * W"] by simp
      ultimately show ?thesis by (simp add: length_elems_tab4 algebra_simps)
    qed
    then show ?thesis
      unfolding t_def using flat_index_tab4 [OF that, of ?f] by simp
  qed
  have rng: "- 1 \<le> x \<and> x \<le> 1" if "x \<in> set (flat t)" for x
  proof -
    from that obtain y where y: "y \<in> set (elems (tab4 ?N C H W ?f))" and x: "x = y / 127.5 - 1.0"
      by (auto simp: t_def)
    from in_set_elems_tab4 [OF y] obtain n c h w
      where b: "n < ?N" "c < C" "h < H" "w < W" and yv: "y = ?f n c h w" by blast
    have mem: "imgs ! n \<in> set imgs" using b(1) by simp
    have "length (flat (pixels_of (imgs ! n))) = H * W * C"
      using sh mem by (auto simp: wf_ndarr_def)
    then have "y \<in> set (flat (pixels_of (imgs ! n)))"
      using index3_bound [OF b(3) b(4) b(2)] yv by simp
    then have "0 \<le> y \<and> y \<le> 255" using a mem by blast
    then show ?thesis unfolding x by simp
  qed
  from r s wf e rng
  show "\<exists>t. prepare_image (ImageList imgs) = Inr t \<and>
             shape t = [length imgs, C, H, W] \<and> wf_ndarr t \<and>
             (\<forall>n<length imgs. \<forall>c<C. \<forall>h<H. \<forall>w<W.
                flat t ! (((n * C + c) * H + h) * W + w)
                = flat (pixels_of (imgs ! n)) ! ((h * W + w) * C + c) / 127.5 - 1.0) \<and>
             (\<forall>x\<in>set (flat t). - 1 \<le> x \<and> x \<le> 1)"
    by blast
next
  show "prepare_image (ImageItem img) = prepare_image (ImageList [img])" by simp
next
  show "prepare_image (ImageTensor a)
     = Inr (if length (shape a) = 3 then a\<lparr>shape := 1 # shape a\<rparr> else a)"
    by (simp add: unsqueeze0_def)
qed


theorem prepare_image_scaling_witness:
  "same_type_items [Nd \<lparr> shape = [1, 2, 3], flat = [0, 255, 51, 102, 153, 204] \<rparr>] \<and>
   wf_ndarr (pixels_of (Nd \<lparr> shape = [1, 2, 3], flat = [0, 255, 51, 102, 153, 204] \<rparr>)) \<and>
   (\<exists>t. prepare_image (ImageList [Nd \<lparr> shape = [1, 2, 3], flat = [0, 255, 51, 102, 153, 204] \<rparr>])
          = Inr t \<and>
        shape t = [1, 3, 1, 2] \<and> flat t ! 5 = 3 / 5 \<and> flat t ! 0 = - 1 \<and> flat t ! 2 = 1) \<and>
   prepare_image (ImageTensor \<lparr> shape = [3, 1, 1], flat = [255, 0, 128] \<rparr>)
     = Inr \<lparr> shape = [1, 3, 1, 1], flat = [255, 0, 128] \<rparr>"
proof -
  let ?a = "\<lparr> shape = [1, 2, 3], flat = [0, 255, 51, 102, 153, 204 :: real] \<rparr>"
  let ?t = "\<lparr> shape = [3, 1, 1], flat = [255, 0, 128 :: real] \<rparr>"
  have h1: "same_type_items [Nd ?a]" by (simp add: same_type_items_def)
  have h2: "wf_ndarr (pixels_of (Nd ?a))" by (simp add: wf_ndarr_def)
  have h3: "\<forall>i\<in>set [Nd ?a]. shape (pixels_of i) = [1, 2, 3] \<and> wf_ndarr (pixels_of i) \<and>
                    (\<forall>v\<in>set (flat (pixels_of i)). 0 \<le> v \<and> v \<le> 255)"
    by (simp add: wf_ndarr_def)
  note th = prepare_image_scaling [of "[Nd ?a]" 1 2 3 "Nd ?a" ?t]
  from th h1 h3 obtain t where
    r: "prepare_image (ImageList [Nd ?a]) = Inr t" and s: "shape t = [length [Nd ?a], 3, 1, 2]"
    and e: "\<forall>n<length [Nd ?a]. \<forall>c<3. \<forall>h<1. \<forall>w<2.
                flat t ! (((n * 3 + c) * 1 + h) * 2 + w)
                = flat (pixels_of ([Nd ?a] ! n)) ! ((h * 2 + w) * 3 + c) / 127.5 - 1.0"
    by blast
  have a: "flat t ! 5 = 3 / 5" using e [rule_format, of 0 2 0 1] by simp
  have b: "flat t ! 0 = - 1" using e [rule_format, of 0 0 0 0] by simp
  have c: "flat t ! 2 = 1" using e [rule_format, of 0 1 0 0] by simp
  have d: "prepare_image (ImageTensor ?t) = Inr \<lparr> shape = [1, 3, 1, 1], flat = [255, 0, 128] \<rparr>"
    using th by simp
  from h1 h2 r s a b c d show ?thesis by auto
qed

section \<open>Properties of prepare_mask_image\<close>

lemma binarize_inplace_eq: "binarize_inplace xs = map threshold_rule xs"
  by (simp add: binarize_inplace_def assign_where_def threshold_rule_def)

lemma threshold_rule_binary: "threshold_rule v = 0 \<or> threshold_rule v = 1"
  by (simp add: threshold_rule_def)

lemma shape_mask_array: "shape (mask_array m) = mask_shape m"
  by (cases m) (simp_all add: lum_array_def)

lemma mapE_lum:
  "list_all is_PIL ms \<Longrightarrow>
   mapE lum_batch1 ms = Inr (map (\<lambda>m. unsqueeze0 (unsqueeze0 (mask_array m))) ms)"
proof (induction ms)
  case Nil
  then show ?case by simp
next
  case (Cons m ms)
  then show ?case by (cases m) auto
qed

lemma mapE_nd_mask:
  "list_all (\<lambda>m. \<not> is_PIL m) ms \<Longrightarrow> \<forall>m\<in>set ms. mask_shape m \<noteq> [] \<Longrightarrow>
   mapE nd_mask_batch1 ms = Inr (map (\<lambda>m. unsqueeze0 (unsqueeze0 (mask_array m))) ms)"
proof (induction ms)
  case Nil
  then show ?case by simp
next
  case (Cons m ms)
  then show ?case by (cases m) auto
qed

lemma concatenate0_unit_batches:
  assumes "arrs \<noteq> []" "\<forall>a\<in>set arrs. shape a = 1 # s"
  shows "concatenate0 arrs = Inr \<lparr> shape = length arrs # s, flat = concat (map flat arrs) \<rparr>"
proof -
  obtain a rest where arrs: "arrs = a # rest" using assms(1) by (cases arrs) auto
  have all: "list_all (\<lambda>b. shape b \<noteq> [] \<and> tl (shape b) = tl (shape a)) (a # rest)"
    using assms(2) arrs by (simp add: list_all_iff)
  have m: "map (\<lambda>b. hd (shape b)) arrs = map (\<lambda>x. Suc 0) arrs"
    using assms(2) by simp
  have "sum_list (map (\<lambda>b. hd (shape b)) arrs) = length arrs"
    unfolding m by (rule sum_list_ones)
  then have hd1: "sum_list (map (\<lambda>b. hd (shape b)) (a # rest)) = length arrs"
    unfolding arrs .
  have tl: "tl (shape a) = s" using assms(2) arrs by simp
  show ?thesis
    unfolding concatenate0_def arrs list.case
    using all hd1 tl arrs by simp
qed

lemma item_values_PIL:
  "is_PIL m \<Longrightarrow> map (\<lambda>v. v / 255.0) (flat (mask_array m)) = item_values m"
  by (cases m) (simp_all add: lum_array_def)

lemma item_values_Nd: "\<not> is_PIL m \<Longrightarrow> flat (mask_array m) = item_values m"
  by (cases m) simp_all

lemma prepare_mask_list_result:
  assumes "valid_mask_list ms"
  shows "prepare_mask_list ms =
     Inr \<lparr> shape = length ms # 1 # mask_shape (hd ms),
           flat = map threshold_rule (concat (map item_values ms)) \<rparr>"
proof -
  define s where "s = mask_shape (hd ms)"
  from assms have ne: "ms \<noteq> []" and ty: "same_type_items ms"
    and sh: "\<forall>m\<in>set ms. mask_shape m \<noteq> [] \<and> mask_shape m = s"
    unfolding valid_mask_list_def list_all_iff s_def by blast+
  obtain first rest where ms: "ms = first # rest" using ne by (cases ms) auto
  let ?arrs = "map (\<lambda>m. unsqueeze0 (unsqueeze0 (mask_array m))) ms"
  have a: "\<forall>a\<in>set ?arrs. shape a = 1 # 1 # s"
    using sh by (auto simp: unsqueeze0_def shape_mask_array)
  have b: "?arrs \<noteq> []" using ne by simp
  have fl: "map flat ?arrs = map (\<lambda>m. flat (mask_array m)) ms"
    by (simp add: unsqueeze0_def)
  have cat: "concatenate0 ?arrs =
      Inr \<lparr> shape = length ms # 1 # s,
            flat = concat (map (\<lambda>m. flat (mask_array m)) ms) \<rparr>"
    using concatenate0_unit_batches [OF b a] unfolding fl by simp
  show ?thesis
  proof (cases first)
    case (PIL p)
    then have all: "list_all is_PIL ms" using ty ms by (auto simp: same_type_items_def)
    have "map (\<lambda>m. map (\<lambda>v. v / 255.0) (flat (mask_array m))) ms = map item_values ms"
      using all item_values_PIL by (intro map_cong refl) (auto simp: list_all_iff)
    then have "concat (map (\<lambda>m. map (\<lambda>v. v / 255.0) (flat (mask_array m))) ms)
          = concat (map item_values ms)"
      by (rule arg_cong)
    then have "map (\<lambda>v. v / 255.0) (concat (map (\<lambda>m. flat (mask_array m)) ms))
          = concat (map item_values ms)"
      by (simp add: map_concat o_def)
    then show ?thesis
      unfolding prepare_mask_list_def s_def [symmetric]
      using PIL ms mapE_lum [OF all] cat
      by (simp add: binarize_inplace_eq)
  next
    case (Nd a)
    then have all: "list_all (\<lambda>m. \<not> is_PIL m) ms"
      using ty ms by (auto simp: same_type_items_def)
    have "map (\<lambda>m. flat (mask_array m)) ms = map item_values ms"
      using all by (intro map_cong refl) (simp add: list_all_iff item_values_Nd)
    then have "concat (map (\<lambda>m. flat (mask_array m)) ms) = concat (map item_values ms)"
      by (rule arg_cong)
    moreover have "\<forall>m\<in>set ms. mask_shape m \<noteq> []" using sh by blast
    ultimately show ?thesis
      unfolding prepare_mask_list_def s_def [symmetric]
      using Nd ms mapE_nd_mask [OF all] cat
      by (simp add: binarize_inplace_eq)
  qed
qed


text \<open>
  Claim C4. For every mask argument the function accepts (a live tensor, one PIL image or
  ndarray, or a list of masks of one type and one shape) whose values lie between 0 and
  255, \<^verbatim>\<open>prepare_mask_image\<close> returns a tensor, and every element of it is exactly 0 or
  exactly 1: 0 where the thresholded value is below 0.5, 1 where it is at or above 0.5.
  The thresholded value is the pixel divided by 255 for a PIL mask and the element itself
  for an ndarray or a tensor. (Over the reals the bound on the values is not used; in
  floating point it is what rules out NaN.)
\<close>

theorem prepare_mask_image_binary:
  assumes valid: "valid_mask_arg arg h"
    and range: "\<forall>v\<in>set (mask_values arg h). 0 \<le> v \<and> v \<le> 255"
  shows "\<exists>t h'. prepare_mask_image arg h = Inr (t, h') \<and>
           storage t < length h' \<and>
           h' ! storage t = map threshold_rule (mask_values arg h) \<and>
           (\<forall>x\<in>set (h' ! storage t). x = 0 \<or> x = 1)"
proof -
  have bin: "\<forall>x\<in>set (map threshold_rule vs). x = 0 \<or> x = 1" for vs
    using threshold_rule_binary by auto
  show ?thesis
  proof (cases arg)
    case (MaskTensor t)
    with valid have live: "storage t < length h" by simp
    have "prepare_mask_image arg h
          = Inr (unsqueeze_mask t, h[storage t := map threshold_rule (h ! storage t)])"
      by (simp add: MaskTensor prepare_mask_tensor_def binarize_inplace_eq)
    moreover have "storage (unsqueeze_mask t) = storage t"
      by (simp add: unsqueeze_mask_def Let_def)
    ultimately show ?thesis using live bin [of "h ! storage t"] MaskTensor by simp
  next
    case (MaskItem m)
    with valid have "valid_mask_list [m]" by simp
    from prepare_mask_list_result [OF this]
    have "prepare_mask_image arg h
          = Inr (\<lparr> storage = length h, tshape = [1, 1] @ mask_shape m \<rparr>,
                 h @ [map threshold_rule (item_values m)])"
      by (simp add: MaskItem from_numpy_def)
    then show ?thesis using bin [of "item_values m"] MaskItem by simp
  next
    case (MaskList ms)
    with valid have "valid_mask_list ms" by simp
    from prepare_mask_list_result [OF this]
    have "prepare_mask_image arg h
          = Inr (\<lparr> storage = length h, tshape = length ms # 1 # mask_shape (hd ms) \<rparr>,
                 h @ [map threshold_rule (concat (map item_values ms))])"
      by (simp add: MaskList from_numpy_def)
    then show ?thesis using bin [of "concat (map item_values ms)"] MaskList by simp
  qed
qed

theorem prepare_mask_image_binary_witness:
  "valid_mask_arg (MaskList [PIL \<lparr> width = 2, height = 1, rgb = [127, 127, 127, 128, 128, 128],
                                   lum = [127, 128] \<rparr>]) [] \<and>
   (\<exists>t h'. prepare_mask_image
              (MaskList [PIL \<lparr> width = 2, height = 1, rgb = [127, 127, 127, 128, 128, 128],
                               lum = [127, 128] \<rparr>]) []
            = Inr (t, h') \<and> h' ! storage t = [0, 1]) \<and>
   valid_mask_arg (MaskItem (Nd \<lparr> shape = [1, 3], flat = [0, 1, 255] \<rparr>)) [] \<and>
   (\<exists>t h'. prepare_mask_image (MaskItem (Nd \<lparr> shape = [1, 3], flat = [0, 1, 255] \<rparr>)) []
            = Inr (t, h') \<and> h' ! storage t = [0, 1, 1])"
proof -
  let ?p = "MaskList [PIL \<lparr> width = 2, height = 1, rgb = [127, 127, 127, 128, 128, 128],
                                   lum = [127, 128] \<rparr>]"
  let ?n = "MaskItem (Nd \<lparr> shape = [1, 3], flat = [0, 1, 255] \<rparr>)"
  have v1: "valid_mask_arg ?p []" and v2: "valid_mask_arg ?n []"
    by (simp_all add: valid_mask_list_def same_type_items_def)
  have r1: "\<forall>v\<in>set (mask_values ?p []). 0 \<le> v \<and> v \<le> 255"
    and r2: "\<forall>v\<in>set (mask_values ?n []). 0 \<le> v \<and> v \<le> 255"
    by simp_all
  from prepare_mask_image_binary [OF v1 r1] obtain t1 h1
    where a: "prepare_mask_image ?p [] = Inr (t1, h1)"
      and b: "h1 ! storage t1 = map threshold_rule (mask_values ?p [])" by blast
  from prepare_mask_image_binary [OF v2 r2] obtain t2 h2
    where c: "prepare_mask_image ?n [] = Inr (t2, h2)"
      and d: "h2 ! storage t2 = map threshold_rule (mask_values ?n [])" by blast
  have b': "h1 ! storage t1 = [0, 1]" using b by (simp add: threshold_rule_def)
  have d': "h2 ! storage t2 = [0, 1, 1]" using d by (simp add: threshold_rule_def)
  from v1 v2 a b' c d' show ?thesis by blast
qed

text \<open>
  Claim C10. For a tensor argument the returned tensor is a view on the argument's own
  storage, and after the call that storage holds the binarized values: the caller's tensor
  has been overwritten. No other storage changes. Whenever the tensor held a value other
  than 0 and 1, the heap after the call differs from the heap before: the function has a
  side effect on tensor inputs.
\<close>

theorem prepare_mask_image_mutates_tensor:
  assumes live: "storage t < length h"
  shows "\<exists>t' h'. prepare_mask_image (MaskTensor t) h = Inr (t', h') \<and>
           storage t' = storage t \<and> length h' = length h \<and>
           h' ! storage t = map threshold_rule (h ! storage t) \<and>
           (\<forall>a<length h. a \<noteq> storage t \<longrightarrow> h' ! a = h ! a) \<and>
           ((\<exists>v\<in>set (h ! storage t). v \<noteq> 0 \<and> v \<noteq> 1) \<longrightarrow> h' \<noteq> h)"
proof -
  let ?h' = "h[storage t := map threshold_rule (h ! storage t)]"
  have r: "prepare_mask_image (MaskTensor t) h = Inr (unsqueeze_mask t, ?h')"
    by (simp add: prepare_mask_tensor_def binarize_inplace_eq)
  have s: "storage (unsqueeze_mask t) = storage t"
    by (simp add: unsqueeze_mask_def Let_def)
  have l: "length ?h' = length h" by simp
  have v: "?h' ! storage t = map threshold_rule (h ! storage t)" using live by simp
  have f: "\<forall>a<length h. a \<noteq> storage t \<longrightarrow> ?h' ! a = h ! a" by simp
  have c: "?h' \<noteq> h" if "\<exists>v\<in>set (h ! storage t). v \<noteq> 0 \<and> v \<noteq> 1"
  proof
    assume "?h' = h"
    with v have eq: "h ! storage t = map threshold_rule (h ! storage t)" by simp
    from that obtain x where x: "x \<in> set (h ! storage t)" "x \<noteq> 0" "x \<noteq> 1" by blast
    from x(1) have "x \<in> set (map threshold_rule (h ! storage t))" using eq by simp
    then show False using x(2,3) threshold_rule_binary by auto
  qed
  from r s l v f c show ?thesis by blast
qed

theorem prepare_mask_image_mutates_tensor_witness:
  "storage \<lparr> storage = 0, tshape = [1, 3] \<rparr> < length [ [1 / 5, 7 / 10, 255 :: real] ] \<and>
   (\<exists>t' h'. prepare_mask_image (MaskTensor \<lparr> storage = 0, tshape = [1, 3] \<rparr>)
               [ [1 / 5, 7 / 10, 255] ] = Inr (t', h') \<and>
            storage t' = 0 \<and> h' ! 0 = [0, 1, 1] \<and> h' \<noteq> [ [1 / 5, 7 / 10, 255] ])"
proof -
  let ?t = "\<lparr> storage = 0, tshape = [1, 3] \<rparr>"
  let ?h = "[ [1 / 5, 7 / 10, 255 :: real] ]"
  have live: "storage ?t < length ?h" by simp
  from prepare_mask_image_mutates_tensor [OF live] obtain t' h'
    where a: "prepare_mask_image (MaskTensor ?t) ?h = Inr (t', h')"
      and b: "storage t' = storage ?t"
      and c: "h' ! storage ?t = map threshold_rule (?h ! storage ?t)"
      and d: "(\<exists>v\<in>set (?h ! storage ?t). v \<noteq> 0 \<and> v \<noteq> 1) \<longrightarrow> h' \<noteq> ?h"
    by blast
  have b': "storage t' = 0" using b by simp
  have c': "h' ! 0 = [0, 1, 1]" using c by (simp add: threshold_rule_def)
  have d': "h' \<noteq> ?h" using d by simp
  from live a b' c' d' show ?thesis by blast
qed

section \<open>Properties of repaint_result\<close>

lemma flat_index_split:
  assumes "i < B * C * H * (W::nat)"
  obtains b c h w where "b < B" "c < C" "h < H" "w < W" "i = ((b * C + c) * H + h) * W + w"
proof -
  have pos: "0 < W" "0 < H" "0 < C"
    using assms by (auto intro: Nat.gr0I)
  define q1 where "q1 = i div W"
  define q2 where "q2 = q1 div H"
  have i: "i = q1 * W + i mod W" by (simp add: q1_def)
  have q1: "q1 = q2 * H + q1 mod H" by (simp add: q2_def)
  have q2: "q2 = (q2 div C) * C + q2 mod C" by simp
  have b1: "q1 < B * C * H"
    unfolding q1_def using assms pos by (simp add: div_less_iff_less_mult)
  have b2: "q2 < B * C"
    unfolding q2_def using b1 pos by (simp add: div_less_iff_less_mult)
  have b3: "q2 div C < B"
    using b2 pos by (simp add: div_less_iff_less_mult)
  have eq: "i = (((q2 div C) * C + q2 mod C) * H + q1 mod H) * W + i mod W"
    using i q1 q2 by simp
  show ?thesis
    by (rule that [of "q2 div C" "q2 mod C" "q1 mod H" "i mod W"])
       (use pos b3 eq in simp_all)
qed

lemma tab4_get4_id:
  assumes "length (elems t) = nb t * nc t * nh t * nw t"
  shows "elems (tab4 (nb t) (nc t) (nh t) (nw t) (get4 t)) = elems t"
proof (rule nth_equalityI)
  show "length (elems (tab4 (nb t) (nc t) (nh t) (nw t) (get4 t))) = length (elems t)"
    using assms by (simp add: length_elems_tab4)
next
  fix i assume "i < length (elems (tab4 (nb t) (nc t) (nh t) (nw t) (get4 t)))"
  then have "i < nb t * nc t * nh t * nw t" by (simp add: length_elems_tab4)
  then obtain b c h w where r: "b < nb t" "c < nc t" "h < nh t" "w < nw t"
    and i: "i = ((b * nc t + c) * nh t + h) * nw t + w"
    by (rule flat_index_split)
  show "elems (tab4 (nb t) (nc t) (nh t) (nw t) (get4 t)) ! i = elems t ! i"
    unfolding i using flat_index_tab4 [OF r, of "get4 t"] by (simp add: get4_def)
qed

lemma to_uint8_unat: "to_uint8 (real (unat v)) = v"
  by (simp only: to_uint8_def floor_of_nat) simp


lemma mask_index_bound:
  assumes "c < R" "h < (K::nat)"
  shows "c * K + h < R * K"
proof -
  have "c * K + h < c * K + K" using assms by simp
  also have "\<dots> = Suc c * K" by simp
  also have "\<dots> \<le> R * K" using assms by (intro mult_le_mono1) simp
  finally show ?thesis .
qed

lemma bget4_mask_const:
  assumes all: "\<forall>v\<in>set (mvals m). v = kw"
    and len: "length (mvals m) = mrows m * mcols m"
    and r: "c < mrows m" "h < mcols m"
  shows "bget4 (mask_tensor m) b c h w = real (unat kw) / 255"
    and "bget4 (tmap (\<lambda>x. 1 - x) (mask_tensor m)) b c h w = 1 - real (unat kw) / 255"
proof -
  have i: "c * mcols m + h < length (mvals m)"
    unfolding len by (rule mask_index_bound [OF r])
  then have v: "mvals m ! (c * mcols m + h) = kw" using all by simp
  have c0: "(if mrows m = 1 then 0 else c) = c" and h0: "(if mcols m = 1 then 0 else h) = h"
    using r by auto
  show "bget4 (mask_tensor m) b c h w = real (unat kw) / 255"
    unfolding bget4_def get4_def mask_tensor_def using i v c0 h0 by simp
  show "bget4 (tmap (\<lambda>x. 1 - x) (mask_tensor m)) b c h w = 1 - real (unat kw) / 255"
    unfolding bget4_def get4_def mask_tensor_def tmap_def using i v c0 h0 by simp
qed

lemma blend_const_mask:
  assumes dims: "rows person = rows result" "cols person = cols result"
      "chans person = chans result"
    and mask: "mrows m = rows result" "mcols m = cols result"
      "length (mvals m) = mrows m * mcols m"
    and all: "\<forall>v\<in>set (mvals m). v = kw"
  shows "repaint_result result person m =
     fromarray (tab4 1 (rows result) (cols result) (chans result)
       (\<lambda>b c h w. get4 (image_tensor result) b c h w * (real (unat kw) / 255) +
                  get4 (image_tensor person) b c h w * (1 - real (unat kw) / 255)))"
proof -
  let ?R = "image_tensor result" and ?P = "image_tensor person"
  let ?M = "mask_tensor m" and ?k = "real (unat kw) / 255"
  let ?H = "rows result" and ?W = "cols result" and ?C = "chans result"
  let ?a = "tab4 1 ?H ?W ?C (\<lambda>b c h w. get4 ?R b c h w * ?k)"
  let ?b = "tab4 1 ?H ?W ?C (\<lambda>b c h w. get4 ?P b c h w * (1 - ?k))"
  have shR: "nb ?R = 1" "nc ?R = ?H" "nh ?R = ?W" "nw ?R = ?C"
    and shP: "nb ?P = 1" "nc ?P = ?H" "nh ?P = ?W" "nw ?P = ?C"
    and shM: "nb ?M = 1" "nc ?M = ?H" "nh ?M = ?W" "nw ?M = 1"
    using dims mask by (simp_all add: image_tensor_def mask_tensor_def)
  have shM': "nb (tmap (\<lambda>x. 1 - x) ?M) = 1" "nc (tmap (\<lambda>x. 1 - x) ?M) = ?H"
      "nh (tmap (\<lambda>x. 1 - x) ?M) = ?W" "nw (tmap (\<lambda>x. 1 - x) ?M) = 1"
    using shM by (simp_all add: tmap_def)
  have "tab4 1 ?H ?W ?C (\<lambda>b c h w. bget4 ?R b c h w * bget4 ?M b c h w) = ?a"
  proof (intro tab4_cong)
    fix b c h w :: nat assume r: "b < 1" "c < ?H" "h < ?W" "w < ?C"
    have "bget4 ?R b c h w = get4 ?R b c h w"
      using r by (intro bget4_in_range) (simp_all add: shR)
    moreover have "bget4 ?M b c h w = ?k"
      using r mask by (intro bget4_mask_const(1) [OF all]) simp_all
    ultimately show "bget4 ?R b c h w * bget4 ?M b c h w = get4 ?R b c h w * ?k" by simp
  qed
  then have a: "np_binop (*) ?R ?M = Inr ?a"
    by (simp add: np_binop_def binop_def shR shM)
  have "tab4 1 ?H ?W ?C
          (\<lambda>b c h w. bget4 ?P b c h w * bget4 (tmap (\<lambda>x. 1 - x) ?M) b c h w) = ?b"
  proof (intro tab4_cong)
    fix b c h w :: nat assume r: "b < 1" "c < ?H" "h < ?W" "w < ?C"
    have "bget4 ?P b c h w = get4 ?P b c h w"
      using r by (intro bget4_in_range) (simp_all add: shP)
    moreover have "bget4 (tmap (\<lambda>x. 1 - x) ?M) b c h w = 1 - ?k"
      using r mask by (intro bget4_mask_const(2) [OF all]) simp_all
    ultimately show "bget4 ?P b c h w * bget4 (tmap (\<lambda>x. 1 - x) ?M) b c h w
                     = get4 ?P b c h w * (1 - ?k)" by simp
  qed
  then have b: "np_binop (*) ?P (tmap (\<lambda>x. 1 - x) ?M) = Inr ?b"
    by (simp add: np_binop_def binop_def shP shM')
  have "binop (+) ?a ?b
        = Inr (tab4 1 ?H ?W ?C (\<lambda>b c h w. get4 ?a b c h w + get4 ?b b c h w))"
    using binop_same [of ?a ?b "(+)"] by (simp add: same_shape_def)
  also have "tab4 1 ?H ?W ?C (\<lambda>b c h w. get4 ?a b c h w + get4 ?b b c h w)
        = tab4 1 ?H ?W ?C (\<lambda>b c h w. get4 ?R b c h w * ?k + get4 ?P b c h w * (1 - ?k))"
    by (intro tab4_cong) (simp add: get4_tab4)
  finally have c: "np_binop (+) ?a ?b
        = Inr (tab4 1 ?H ?W ?C (\<lambda>b c h w. get4 ?R b c h w * ?k + get4 ?P b c h w * (1 - ?k)))"
    by (simp add: np_binop_def)
  show ?thesis
    unfolding repaint_result_def Let_def
    by (simp only: a b c sum.case)
qed

lemma fromarray_image_tensor:
  assumes "length (vals i) = rows i * cols i * chans i"
    and "chans i = 2 \<or> chans i = 3 \<or> chans i = 4"
  shows "fromarray (tab4 1 (rows i) (cols i) (chans i) (get4 (image_tensor i))) = Inr i"
proof -
  let ?t = "image_tensor i"
  have "elems (tab4 (nb ?t) (nc ?t) (nh ?t) (nw ?t) (get4 ?t)) = elems ?t"
    using assms(1) by (intro tab4_get4_id) (simp add: image_tensor_def)
  then have e: "elems (tab4 1 (rows i) (cols i) (chans i) (get4 ?t))
                = map (\<lambda>v. real (unat v)) (vals i)"
    by (simp add: image_tensor_def)
  have "map to_uint8 (map (\<lambda>v. real (unat v)) (vals i)) = vals i"
    by (simp only: map_map o_def to_uint8_unat map_ident)
  then show ?thesis
    using assms(2) unfolding fromarray_def e by auto
qed


text \<open>
  Claim C5. For a result image and an original image of equal size and band count (RGB, or
  any band count PIL builds an image from) and a mask of the same height and width:
  \<^verbatim>\<open>repaint_result\<close> with a mask that is 255 everywhere returns exactly the result
  image, and with a mask that is 0 everywhere returns exactly the original image. (At
  these two masks the weights are exactly 1 and 0, in float64 as well as over the reals,
  so no rounding precedes the cut to uint8.)
\<close>

theorem repaint_result_full_and_empty_mask:
  assumes wfr: "length (vals result) = rows result * cols result * chans result"
    and wfp: "length (vals person) = rows person * cols person * chans person"
    and dims: "rows person = rows result" "cols person = cols result"
      "chans person = chans result"
    and bands: "chans result = 2 \<or> chans result = 3 \<or> chans result = 4"
    and mask: "mrows m = rows result" "mcols m = cols result"
      "length (mvals m) = mrows m * mcols m"
  shows "((\<forall>v\<in>set (mvals m). v = 255) \<longrightarrow> repaint_result result person m = Inr result) \<and>
         ((\<forall>v\<in>set (mvals m). v = 0) \<longrightarrow> repaint_result result person m = Inr person)"
proof (intro conjI impI)
  assume all: "\<forall>v\<in>set (mvals m). v = 255"
  have "repaint_result result person m =
     fromarray (tab4 1 (rows result) (cols result) (chans result)
       (\<lambda>b c h w. get4 (image_tensor result) b c h w * (real (unat (255 :: 8 word)) / 255) +
                  get4 (image_tensor person) b c h w * (1 - real (unat (255 :: 8 word)) / 255)))"
    by (rule blend_const_mask [OF dims mask all])
  also have "\<dots> = fromarray (tab4 1 (rows result) (cols result) (chans result)
                      (get4 (image_tensor result)))"
    by (intro arg_cong [where f = fromarray] tab4_cong) simp
  also have "\<dots> = Inr result"
    by (rule fromarray_image_tensor [OF wfr bands])
  finally show "repaint_result result person m = Inr result" .
next
  assume all: "\<forall>v\<in>set (mvals m). v = 0"
  have "repaint_result result person m =
     fromarray (tab4 1 (rows result) (cols result) (chans result)
       (\<lambda>b c h w. get4 (image_tensor result) b c h w * (real (unat (0 :: 8 word)) / 255) +
                  get4 (image_tensor person) b c h w * (1 - real (unat (0 :: 8 word)) / 255)))"
    by (rule blend_const_mask [OF dims mask all])
  also have "\<dots> = fromarray (tab4 1 (rows person) (cols person) (chans person)
                      (get4 (image_tensor person)))"
    unfolding dims by (intro arg_cong [where f = fromarray] tab4_cong) simp
  also have "\<dots> = Inr person"
    using bands by (intro fromarray_image_tensor [OF wfp]) (simp add: dims)
  finally show "repaint_result result person m = Inr person" .
qed

theorem repaint_result_full_and_empty_mask_witness:
  "repaint_result \<lparr> rows = 1, cols = 2, chans = 3, vals = [10, 20, 30, 40, 50, 60] \<rparr>
                  \<lparr> rows = 1, cols = 2, chans = 3, vals = [1, 2, 3, 4, 5, 6] \<rparr>
                  \<lparr> mrows = 1, mcols = 2, mvals = [255, 255] \<rparr>
     = Inr \<lparr> rows = 1, cols = 2, chans = 3, vals = [10, 20, 30, 40, 50, 60] \<rparr> \<and>
   repaint_result \<lparr> rows = 1, cols = 2, chans = 3, vals = [10, 20, 30, 40, 50, 60] \<rparr>
                  \<lparr> rows = 1, cols = 2, chans = 3, vals = [1, 2, 3, 4, 5, 6] \<rparr>
                  \<lparr> mrows = 1, mcols = 2, mvals = [0, 0] \<rparr>
     = Inr \<lparr> rows = 1, cols = 2, chans = 3, vals = [1, 2, 3, 4, 5, 6] \<rparr>"
  using repaint_result_full_and_empty_mask
          [of "\<lparr> rows = 1, cols = 2, chans = 3, vals = [10, 20, 30, 40, 50, 60] \<rparr>"
              "\<lparr> rows = 1, cols = 2, chans = 3, vals = [1, 2, 3, 4, 5, 6] \<rparr>"
              "\<lparr> mrows = 1, mcols = 2, mvals = [255, 255] \<rparr>"]
        repaint_result_full_and_empty_mask
          [of "\<lparr> rows = 1, cols = 2, chans = 3, vals = [10, 20, 30, 40, 50, 60] \<rparr>"
              "\<lparr> rows = 1, cols = 2, chans = 3, vals = [1, 2, 3, 4, 5, 6] \<rparr>"
              "\<lparr> mrows = 1, mcols = 2, mvals = [0, 0] \<rparr>"]
  by simp

section \<open>Properties of resize_and_crop and resize_and_padding\<close>










text \<open>
  A scaled dimension can round down to 0: a 1 by 1000 image fitted into a 10 by 10 box
  is to be resized to 0 by 10, which PIL refuses.
\<close>

lemma resize_and_padding_thin_image:
  "resize_and_padding (solid_resampler white) (solid_image 1 1000 white) (10, 10)
   = Inl (ValueError ''height and width must be > 0'')"
  by (simp add: resize_and_padding_def solid_image_def true_div_def floor_div_def
        pil_resize_def)





section \<open>Properties of the remote inference calls\<close>

text \<open>
  Claim C9, as stated, fails: status 200 does not by itself mean that the call returns.
  A response with status 200 whose JSON object has no \<^verbatim>\<open>result_image\<close> field makes
  \<^verbatim>\<open>submit_function\<close> raise KeyError at \<^verbatim>\<open>result["result_image"]\<close>.
\<close>

theorem remote_call_status_counterexample:
  "submit_function (demo_env 200 ''{}'' [(''masked_image'', ''bQ=='')])
     ''p.jpg'' ''c.jpg'' ''upper'' 50 (5 / 2) 42
   = Inl (KeyError ''result_image'')"
  by (simp add: submit_function_def demo_env_def getitem_def)

text \<open>
  Claim C9, amended. For \<^verbatim>\<open>submit_function\<close>, once its two images have been read and
  its request has been answered, and for \<^verbatim>\<open>pose_transfer_function\<close>, once its two files
  have been opened and its request has been answered: if the status of the response is not
  200, the function raises RuntimeError with the message \<^verbatim>\<open>API error <status>: <body>\<close>;
  if the status is 200 and the body is what the endpoint promises (it parses to a JSON
  object, the image fields are present and hold base64 data, and the decoded bytes open as
  images), the function returns the decoded image or images and does not raise. Each
  function has its own conditions; neither depends on the other's files or request.
\<close>

theorem remote_call_status:
  "(resize_image_to_buffer e person_image = Inr person_buffer \<and>
    resize_image_to_buffer e cloth_image = Inr cloth_buffer \<and>
    post e (style_request e person_buffer cloth_buffer cloth_type steps scale seed) = Inr sresp
    \<longrightarrow>
      (status_code sresp \<noteq> 200 \<longrightarrow>
         submit_function e person_image cloth_image cloth_type steps scale seed
         = Inl (RuntimeError
                  (''API error '' @ str_int (status_code sresp) @ '': '' @ body_text sresp))) \<and>
      (status_code sresp = 200 \<and> response_json e (body_text sresp) = Inr sd \<and>
       map_of sd ''masked_image'' = Some mstr \<and> map_of sd ''result_image'' = Some rstr \<and>
       b64decode e mstr = Inr mb \<and> b64decode e rstr = Inr rb \<and>
       image_open e mb = Inr masked_img \<and> image_open e rb = Inr result_img \<longrightarrow>
         submit_function e person_image cloth_image cloth_type steps scale seed
         = Inr (masked_img, result_img))) \<and>
   (open_rb e person_file = Inr fa \<and> open_rb e pose_file = Inr fb \<and>
    post e (pose_request e fa fb steps' scale' seed') = Inr presp
    \<longrightarrow>
      (status_code presp \<noteq> 200 \<longrightarrow>
         pose_transfer_function e person_file pose_file steps' scale' seed'
         = Inl (RuntimeError
                  (''API error '' @ str_int (status_code presp) @ '': '' @ body_text presp))) \<and>
      (status_code presp = 200 \<and> response_json e (body_text presp) = Inr pd \<and>
       map_of pd ''result_pose'' = Some pstr \<and> b64decode e pstr = Inr pbytes \<and>
       image_open e pbytes = Inr result_pose \<longrightarrow>
         pose_transfer_function e person_file pose_file steps' scale' seed' = Inr result_pose))"
proof (intro conjI impI)
  assume pre: "resize_image_to_buffer e person_image = Inr person_buffer \<and>
    resize_image_to_buffer e cloth_image = Inr cloth_buffer \<and>
    post e (style_request e person_buffer cloth_buffer cloth_type steps scale seed) = Inr sresp"
  assume "status_code sresp \<noteq> 200"
  with pre show "submit_function e person_image cloth_image cloth_type steps scale seed
       = Inl (RuntimeError
                (''API error '' @ str_int (status_code sresp) @ '': '' @ body_text sresp))"
    unfolding submit_function_def by (simp add: api_error_def)
next
  assume pre: "resize_image_to_buffer e person_image = Inr person_buffer \<and>
    resize_image_to_buffer e cloth_image = Inr cloth_buffer \<and>
    post e (style_request e person_buffer cloth_buffer cloth_type steps scale seed) = Inr sresp"
  assume "status_code sresp = 200 \<and> response_json e (body_text sresp) = Inr sd \<and>
       map_of sd ''masked_image'' = Some mstr \<and> map_of sd ''result_image'' = Some rstr \<and>
       b64decode e mstr = Inr mb \<and> b64decode e rstr = Inr rb \<and>
       image_open e mb = Inr masked_img \<and> image_open e rb = Inr result_img"
  with pre show "submit_function e person_image cloth_image cloth_type steps scale seed
       = Inr (masked_img, result_img)"
    unfolding submit_function_def by (simp add: getitem_def)
next
  assume pre: "open_rb e person_file = Inr fa \<and> open_rb e pose_file = Inr fb \<and>
    post e (pose_request e fa fb steps' scale' seed') = Inr presp"
  assume "status_code presp \<noteq> 200"
  with pre show "pose_transfer_function e person_file pose_file steps' scale' seed'
       = Inl (RuntimeError
                (''API error '' @ str_int (status_code presp) @ '': '' @ body_text presp))"
    unfolding pose_transfer_function_def by (simp add: api_error_def)
next
  assume pre: "open_rb e person_file = Inr fa \<and> open_rb e pose_file = Inr fb \<and>
    post e (pose_request e fa fb steps' scale' seed') = Inr presp"
  assume "status_code presp = 200 \<and> response_json e (body_text presp) = Inr pd \<and>
       map_of pd ''result_pose'' = Some pstr \<and> b64decode e pstr = Inr pbytes \<and>
       image_open e pbytes = Inr result_pose"
  with pre show "pose_transfer_function e person_file pose_file steps' scale' seed' = Inr result_pose"
    unfolding pose_transfer_function_def by (simp add: getitem_def)
qed

lemma str_int_503: "str_int 503 = ''503''"
  by (simp add: str_int_def str_nat.simps)

theorem remote_call_status_witness:
  "submit_function (demo_env 503 ''busy'' []) ''p.jpg'' ''c.jpg'' ''upper'' 50 (5 / 2) 42
     = Inl (RuntimeError ''API error 503: busy'') \<and>
   submit_function
     (demo_env 200 ''{..}'' [(''masked_image'', ''bQ==''), (''result_image'', ''cg=='')])
     ''p.jpg'' ''c.jpg'' ''upper'' 50 (5 / 2) 42
     = Inr (''bQ=='', ''cg=='') \<and>
   pose_transfer_function (demo_env 503 ''busy'' []) ''p.jpg'' ''q.jpg'' 50 (5 / 2) 42
     = Inl (RuntimeError ''API error 503: busy'') \<and>
   pose_transfer_function (demo_env 200 ''{..}'' [(''result_pose'', ''cA=='')])
     ''p.jpg'' ''q.jpg'' 50 (5 / 2) 42
     = Inr ''cA==''"
proof -
  note style_bad = remote_call_status
      [where e = "demo_env 503 ''busy'' []" and person_image = "''p.jpg''"
         and cloth_image = "''c.jpg''" and person_buffer = "''p.jpg''"
         and cloth_buffer = "''c.jpg''" and cloth_type = "''upper''" and steps = 50
         and scale = "5 / 2" and seed = 42
         and sresp = "\<lparr> status_code = 503, body_text = ''busy'' \<rparr>",
       THEN conjunct1]
  note style_good = remote_call_status
      [where e = "demo_env 200 ''{..}'' [(''masked_image'', ''bQ==''), (''result_image'', ''cg=='')]"
         and person_image = "''p.jpg''"
         and cloth_image = "''c.jpg''" and person_buffer = "''p.jpg''"
         and cloth_buffer = "''c.jpg''" and cloth_type = "''upper''" and steps = 50
         and scale = "5 / 2" and seed = 42
         and sresp = "\<lparr> status_code = 200, body_text = ''{..}'' \<rparr>"
         and sd = "[(''masked_image'', ''bQ==''), (''result_image'', ''cg=='')]"
         and mstr = "''bQ==''" and rstr = "''cg==''" and mb = "''bQ==''" and rb = "''cg==''"
         and masked_img = "''bQ==''" and result_img = "''cg==''",
       THEN conjunct1]
  note pose_bad = remote_call_status
      [where e = "demo_env 503 ''busy'' []"
         and person_file = "''p.jpg''" and pose_file = "''q.jpg''" and fa = "''p.jpg''"
         and fb = "''q.jpg''" and steps' = 50 and scale' = "5 / 2" and seed' = 42
         and presp = "\<lparr> status_code = 503, body_text = ''busy'' \<rparr>",
       THEN conjunct2]
  note pose_good = remote_call_status
      [where e = "demo_env 200 ''{..}'' [(''result_pose'', ''cA=='')]"
         and person_file = "''p.jpg''" and pose_file = "''q.jpg''" and fa = "''p.jpg''"
         and fb = "''q.jpg''" and steps' = 50 and scale' = "5 / 2" and seed' = 42
         and presp = "\<lparr> status_code = 200, body_text = ''{..}'' \<rparr>"
         and pd = "[(''result_pose'', ''cA=='')]"
         and pstr = "''cA==''" and pbytes = "''cA==''" and result_pose = "''cA==''",
       THEN conjunct2]
  have a: "submit_function (demo_env 503 ''busy'' []) ''p.jpg'' ''c.jpg'' ''upper'' 50 (5 / 2) 42
     = Inl (RuntimeError ''API error 503: busy'')"
    using style_bad by (simp add: demo_env_def str_int_503)
  have b: "submit_function
     (demo_env 200 ''{..}'' [(''masked_image'', ''bQ==''), (''result_image'', ''cg=='')])
     ''p.jpg'' ''c.jpg'' ''upper'' 50 (5 / 2) 42
     = Inr (''bQ=='', ''cg=='')"
    using style_good by (simp add: demo_env_def)
  have c: "pose_transfer_function (demo_env 503 ''busy'' []) ''p.jpg'' ''q.jpg'' 50 (5 / 2) 42
     = Inl (RuntimeError ''API error 503: busy'')"
    using pose_bad by (simp add: demo_env_def str_int_503)
  have d: "pose_transfer_function (demo_env 200 ''{..}'' [(''result_pose'', ''cA=='')])
     ''p.jpg'' ''q.jpg'' 50 (5 / 2) 42
     = Inr ''cA==''"
    using pose_good by (simp add: demo_env_def)
  from a b c d show ?thesis by blast
qed

section \<open>Properties of compute_vae_encodings\<close>

text \<open>
  Claim C7, as stated, fails: the function samples. With an encoder whose posterior has
  standard deviation 1, two calls in a row on the same image, the second starting from the
  generator state the first one left, return the latents 0 and 1/2.
\<close>

theorem compute_vae_encodings_counterexample:
  "fst (compute_vae_encodings \<lparr> shape = [1], flat = [0] \<rparr> (gaussian_vae (1 / 2) 1) real)
     = \<lparr> shape = [1], flat = [0] \<rparr> \<and>
   fst (compute_vae_encodings \<lparr> shape = [1], flat = [0] \<rparr> (gaussian_vae (1 / 2) 1)
          (snd (compute_vae_encodings \<lparr> shape = [1], flat = [0] \<rparr> (gaussian_vae (1 / 2) 1) real)))
     = \<lparr> shape = [1], flat = [1 / 2] \<rparr>"
  by (simp add: compute_vae_encodings_def gaussian_vae_def)

text \<open>
  Claim C7, amended. \<^verbatim>\<open>compute_vae_encodings\<close> returns the latent that the encoder
  samples at the current state of the random generator, multiplied by the encoder's
  \<^verbatim>\<open>scaling_factor\<close>, and leaves the generator where the sampling left it. Two calls
  with the same image and encoder return equal tensors whenever the sampling gives the same
  latent for both generator states (the same seed, or a posterior without noise).
\<close>

theorem compute_vae_encodings_sampled:
  "fst (compute_vae_encodings img v g)
     = (fst (encode_sample v img g))
         \<lparr>flat := map (\<lambda>x. x * scaling_factor v) (flat (fst (encode_sample v img g)))\<rparr> \<and>
   snd (compute_vae_encodings img v g) = snd (encode_sample v img g) \<and>
   (fst (encode_sample v img g) = fst (encode_sample v img g')
      \<longrightarrow> fst (compute_vae_encodings img v g) = fst (compute_vae_encodings img v g'))"
  by (simp add: compute_vae_encodings_def Let_def split: prod.splits)

theorem compute_vae_encodings_sampled_witness:
  "fst (encode_sample (gaussian_vae (1 / 2) 0) \<lparr> shape = [2], flat = [4, 6] \<rparr> real)
     = fst (encode_sample (gaussian_vae (1 / 2) 0) \<lparr> shape = [2], flat = [4, 6] \<rparr> (\<lambda>i. real i + 2)) \<and>
   fst (compute_vae_encodings \<lparr> shape = [2], flat = [4, 6] \<rparr> (gaussian_vae (1 / 2) 0) real)
     = \<lparr> shape = [2], flat = [2, 3] \<rparr> \<and>
   fst (compute_vae_encodings \<lparr> shape = [2], flat = [4, 6] \<rparr> (gaussian_vae (1 / 2) 0) (\<lambda>i. real i + 2))
     = \<lparr> shape = [2], flat = [2, 3] \<rparr>"
proof -
  let ?x = "\<lparr> shape = [2], flat = [4, 6 :: real] \<rparr>"
  let ?v = "gaussian_vae (1 / 2) 0"
  have s: "fst (encode_sample ?v ?x g) = ?x" for g
    by (simp add: gaussian_vae_def upt_rec)
  note th = compute_vae_encodings_sampled [of ?x ?v real "\<lambda>i. real i + 2"]
  have a: "fst (compute_vae_encodings ?x ?v real) = \<lparr> shape = [2], flat = [2, 3] \<rparr>"
    using th by (simp add: s) (simp add: gaussian_vae_def)
  have b: "fst (compute_vae_encodings ?x ?v (\<lambda>i. real i + 2)) = \<lparr> shape = [2], flat = [2, 3] \<rparr>"
    using th a by (simp add: s)
  from s a b show ?thesis by simp
qed

end
